theory Spec2Isabelle
  imports Complex_Main "HOL-Library.Sublist"
begin

section \<open>Python values and the operations the program applies to them\<close>

text \<open>
  The program is a single Streamlit script, \<^verbatim>\<open>streamlit_app.py\<close>. Every value it handles
  comes out of \<^verbatim>\<open>json.loads\<close> or \<^verbatim>\<open>response.json()\<close>: \<^verbatim>\<open>None\<close>, booleans, integers,
  strings, lists and dictionaries (in insertion order, each key once). Numbers with a
  fraction or an exponent (Python floats) are not represented, and strings are ASCII.
\<close>

datatype json =
    JNull
  | JBool bool
  | JInt int
  | JStr string
  | JArr "json list"
  | JObj "(string \<times> json) list"

text \<open>
  The exceptions that can occur. \<open>PyException\<close> is the script's own
  \<^verbatim>\<open>raise Exception(...)\<close>; \<open>LibraryError\<close> stands for whatever a library call
  (requests, openai, smtplib) raises, with its text. \<open>ValueError\<close> and
  \<open>RecursionError\<close> are what \<^verbatim>\<open>datetime\<close> and \<^verbatim>\<open>json.loads\<close> raise on values beyond
  their range.
\<close>

datatype py_exception =
    PyException string
  | KeyError string
  | TypeError
  | StopIteration
  | NameError string
  | ValueError
  | IndexError
  | RecursionError
  | JSONDecodeError string
  | LibraryError string

definition bindE :: "'e + 'a \<Rightarrow> ('a \<Rightarrow> 'e + 'b) \<Rightarrow> 'e + 'b" where
  "bindE m f = (case m of Inl e \<Rightarrow> Inl e | Inr x \<Rightarrow> f x)"

text \<open>\<^verbatim>\<open>x[k]\<close> for a string key: a dictionary looks the key up, anything else raises.\<close>

fun subscript :: "json \<Rightarrow> string \<Rightarrow> py_exception + json" where
  "subscript (JObj kvs) k = (case map_of kvs k of None \<Rightarrow> Inl (KeyError k) | Some v \<Rightarrow> Inr v)"
| "subscript _ k = Inl TypeError"

text \<open>Truth value of a value in \<^verbatim>\<open>if x:\<close> and \<^verbatim>\<open>x and y\<close>.\<close>

fun truthy :: "json \<Rightarrow> bool" where
  "truthy JNull = False"
| "truthy (JBool b) = b"
| "truthy (JInt n) = (n \<noteq> 0)"
| "truthy (JStr s) = (s \<noteq> [])"
| "truthy (JArr xs) = (xs \<noteq> [])"
| "truthy (JObj kvs) = (kvs \<noteq> [])"

text \<open>
  Iteration in \<^verbatim>\<open>for x in v\<close>: a list gives its elements, a dictionary its keys, a string
  its characters; \<^verbatim>\<open>None\<close>, booleans and integers are not iterable.
\<close>

fun py_iter :: "json \<Rightarrow> py_exception + json list" where
  "py_iter (JArr xs) = Inr xs"
| "py_iter (JObj kvs) = Inr (map (\<lambda>kv. JStr (fst kv)) kvs)"
| "py_iter (JStr s) = Inr (map (\<lambda>c. JStr [c]) s)"
| "py_iter _ = Inl TypeError"

text \<open>
  \<^verbatim>\<open>x == y\<close>: booleans and integers compare by number (\<^verbatim>\<open>True == 1\<close>), strings by
  content, lists element by element, dictionaries key by key whatever the order.
\<close>

fun num_val :: "json \<Rightarrow> int option" where
  "num_val (JBool b) = Some (if b then 1 else 0)"
| "num_val (JInt n) = Some n"
| "num_val _ = None"

fun py_eq :: "json \<Rightarrow> json \<Rightarrow> bool" where
  "py_eq x y =
     (case x of
        JArr xs \<Rightarrow> (case y of JArr ys \<Rightarrow> list_all2 py_eq xs ys | _ \<Rightarrow> False)
      | JObj a \<Rightarrow>
          (case y of
             JObj b \<Rightarrow>
               set (map fst a) = set (map fst b) \<and>
               list_all (\<lambda>kv. case map_of b (fst kv) of None \<Rightarrow> False
                               | Some w \<Rightarrow> py_eq (snd kv) w) a
           | _ \<Rightarrow> False)
      | JStr s \<Rightarrow> (case y of JStr t \<Rightarrow> s = t | _ \<Rightarrow> False)
      | JNull \<Rightarrow> (case y of JNull \<Rightarrow> True | _ \<Rightarrow> False)
      | _ \<Rightarrow> (case num_val x of None \<Rightarrow> False
              | Some m \<Rightarrow> (case num_val y of None \<Rightarrow> False | Some n \<Rightarrow> m = n)))"

declare py_eq.simps [simp del]

text \<open>Values a \<^verbatim>\<open>set\<close> refuses: lists and dictionaries are not hashable.\<close>

fun unhashable :: "json \<Rightarrow> bool" where
  "unhashable (JArr xs) = True"
| "unhashable (JObj kvs) = True"
| "unhashable _ = False"

text \<open>Decimal digits of an integer, as \<^verbatim>\<open>str\<close> and f-strings print it.\<close>

definition digit :: "nat \<Rightarrow> char" where
  "digit d = ''0123456789'' ! d"

fun str_nat :: "nat \<Rightarrow> string" where
  "str_nat n = (if n < 10 then [digit n] else str_nat (n div 10) @ [digit (n mod 10)])"

declare str_nat.simps [simp del]

definition str_int :: "int \<Rightarrow> string" where
  "str_int i = (if i < 0 then ''-'' @ str_nat (nat (- i)) else str_nat (nat i))"

text \<open>\<^verbatim>\<open>sep.join(xs)\<close> on a list of strings.\<close>

fun str_join :: "string \<Rightarrow> string list \<Rightarrow> string" where
  "str_join sep [] = []"
| "str_join sep [x] = x"
| "str_join sep (x # y # ys) = x @ sep @ str_join sep (y # ys)"

text \<open>
  \<^verbatim>\<open>sep.join(vs)\<close> on values: an item that is not a string raises \<^verbatim>\<open>TypeError\<close>.
\<close>

fun the_strs :: "json list \<Rightarrow> py_exception + string list" where
  "the_strs [] = Inr []"
| "the_strs (JStr s # vs) = bindE (the_strs vs) (\<lambda>ss. Inr (s # ss))"
| "the_strs (_ # vs) = Inl TypeError"

definition py_join :: "string \<Rightarrow> json list \<Rightarrow> py_exception + string" where
  "py_join sep vs = bindE (the_strs vs) (\<lambda>ss. Inr (str_join sep ss))"

text \<open>\<^verbatim>\<open>s.replace('_', ' ')\<close> and \<^verbatim>\<open>s.title()\<close> on ASCII text.\<close>

definition replace_underscore :: "string \<Rightarrow> string" where
  "replace_underscore s = map (\<lambda>c. if c = CHR ''_'' then CHR '' '' else c) s"

definition ascii_lowercase :: string where
  "ascii_lowercase = ''abcdefghijklmnopqrstuvwxyz''"

definition ascii_uppercase :: string where
  "ascii_uppercase = ''ABCDEFGHIJKLMNOPQRSTUVWXYZ''"

definition to_upper :: "char \<Rightarrow> char" where
  "to_upper c = (case map_of (zip ascii_lowercase ascii_uppercase) c of None \<Rightarrow> c | Some u \<Rightarrow> u)"

definition to_lower :: "char \<Rightarrow> char" where
  "to_lower c = (case map_of (zip ascii_uppercase ascii_lowercase) c of None \<Rightarrow> c | Some l \<Rightarrow> l)"

definition is_cased :: "char \<Rightarrow> bool" where
  "is_cased c = (c \<in> set ascii_lowercase \<or> c \<in> set ascii_uppercase)"

text \<open>
  \<open>title_from prev s\<close>: \<open>prev\<close> tells whether the previous character was a letter. A
  letter that starts a word is put in upper case, a letter inside a word in lower case,
  and every other character is kept.
\<close>

fun title_from :: "bool \<Rightarrow> string \<Rightarrow> string" where
  "title_from prev [] = []"
| "title_from prev (c # cs) =
     (if is_cased c then (if prev then to_lower c else to_upper c) # title_from True cs
      else c # title_from False cs)"

definition title :: "string \<Rightarrow> string" where
  "title s = title_from False s"

section \<open>Dates: \<^verbatim>\<open>datetime.fromtimestamp\<close> and \<^verbatim>\<open>strftime('%Y-%m-%d')\<close>\<close>

text \<open>
  The calendar date of a day number (days since 1970-01-01) in the proleptic Gregorian
  calendar, which is the calendar of \<^verbatim>\<open>datetime\<close>.
\<close>

definition civil_from_days :: "int \<Rightarrow> int \<times> int \<times> int" where
  "civil_from_days days =
     (let z = days + 719468;
          era = z div 146097;
          doe = z - era * 146097;
          yoe = (doe - doe div 1460 + doe div 36524 - doe div 146096) div 365;
          doy = doe - (365 * yoe + yoe div 4 - yoe div 100);
          mp = (5 * doy + 2) div 153;
          d = doy - (153 * mp + 2) div 5 + 1;
          m = (if mp < 10 then mp + 3 else mp - 9);
          y = yoe + era * 400 + (if m \<le> 2 then 1 else 0)
      in (y, m, d))"

definition zero_pad :: "nat \<Rightarrow> string \<Rightarrow> string" where
  "zero_pad w s = replicate (w - length s) CHR ''0'' @ s"

text \<open>
  \<^verbatim>\<open>strftime('%Y-%m-%d')\<close> as the C library under CPython prints it: the month and the day
  with two digits, the year with the digits it has (\<^verbatim>\<open>999-12-31\<close> for the year 999).
\<close>

definition strftime_Ymd :: "int \<times> int \<times> int \<Rightarrow> string" where
  "strftime_Ymd ymd =
     (case ymd of (y, m, d) \<Rightarrow>
        str_int y @ ''-'' @ zero_pad 2 (str_int m) @ ''-'' @ zero_pad 2 (str_int d))"

section \<open>The environment of the script\<close>

text \<open>
  Everything the script obtains from outside itself: the behaviour of the interpreter
  that the source leaves open, the three secrets, the three external services and
  the selector widget.
  \<^item> \<open>py_repr\<close>: the text \<^verbatim>\<open>str\<close> gives for a list or a dictionary.
  \<^item> \<open>set_iter\<close>: the order in which a \<^verbatim>\<open>set\<close> built from the given sequence of values
    is iterated. Python fixes no order; for strings it changes from one process to the
    next with hash randomisation.
  \<^item> \<open>utc_offset\<close>: the offset of local time from UTC, in seconds, at a given instant
    (seconds since the epoch): \<^verbatim>\<open>fromtimestamp\<close> without a time zone gives local time.
  \<^item> \<open>json_loads\<close>: \<^verbatim>\<open>json.loads\<close> on a string; \<open>Inl\<close> is the exception it raises: a
    \<^verbatim>\<open>JSONDecodeError\<close> with its text on a text that is not JSON, or another one
    (\<^verbatim>\<open>RecursionError\<close> on brackets nested too deep, \<^verbatim>\<open>ValueError\<close> on an integer with
    too many digits).
\<close>

record http_request =
  url :: string
  headers :: "(string \<times> string) list"
  query :: string
  variables :: "(string \<times> int) list"

text \<open>
  The outcome of \<^verbatim>\<open>requests.post\<close>: it raises, or it returns a response with a status
  code and a body; \<^verbatim>\<open>response.json()\<close> raises on a body that is not JSON (\<open>Inl\<close>).
\<close>

datatype http_outcome =
    PostRaises string
  | Response int "string + json"

record completion_request =
  model :: string
  messages :: "(string \<times> string) list"
  temperature :: rat
  max_tokens :: nat
  response_format :: "(string \<times> string) list"
  logit_bias :: "(nat \<times> int) list"

text \<open>
  The outcome of \<^verbatim>\<open>client.chat.completions.create\<close>: it raises, or it returns a
  completion, of which the script reads \<^verbatim>\<open>choices[0].message.content\<close>
  (\<open>None\<close> when the content is \<^verbatim>\<open>None\<close>); \<open>NoChoices\<close> is a completion whose list of
  choices is empty.
\<close>

datatype completion_outcome =
    CreateRaises string
  | NoChoices
  | Completion "string option"

text \<open>
  One run of lines 267 to 277 of \<^verbatim>\<open>send_email\<close>: the message built and the SMTP session
  it is sent in.
\<close>

record smtp_submission =
  smtp_host :: string
  smtp_port :: nat
  login_user :: string
  login_password :: string
  msg_subject :: string
  msg_from :: string
  msg_to :: string
  html_part :: string

record env =
  py_repr :: "json \<Rightarrow> string"
  set_iter :: "json list \<Rightarrow> json list"
  utc_offset :: "int \<Rightarrow> int"
  json_loads :: "string \<Rightarrow> py_exception + json"
  GMAIL_PASSWORD :: string
  GMAIL_USER :: string
  OPENAI_API_KEY :: string
  requests_post :: "http_request \<Rightarrow> http_outcome"
  chat_completions_create :: "completion_request \<Rightarrow> completion_outcome"
  smtp_submit :: "smtp_submission \<Rightarrow> string option"
  st_selectbox :: "json list \<Rightarrow> json"

text \<open>
  \<^verbatim>\<open>str(v)\<close>, which is what an f-string puts in place of \<^verbatim>\<open>{v}\<close>.
\<close>

definition py_str :: "env \<Rightarrow> json \<Rightarrow> string" where
  "py_str e v =
     (case v of
        JStr s \<Rightarrow> s
      | JNull \<Rightarrow> ''None''
      | JBool b \<Rightarrow> (if b then ''True'' else ''False'')
      | JInt n \<Rightarrow> str_int n
      | _ \<Rightarrow> py_repr e v)"

text \<open>
  \<^verbatim>\<open>datetime.datetime.fromtimestamp(ms / 1000).strftime('%Y-%m-%d')\<close> for an integer \<open>ms\<close>.
  The quotient is a float, but a whole number of milliseconds never lies close enough
  to a second's boundary for the rounding to change the second, so the local calendar
  day is that of \<open>ms div 1000\<close>. \<^verbatim>\<open>datetime\<close> has the years 1 to 9999 and raises beyond
  (\<^verbatim>\<open>ValueError\<close>; on some platforms \<^verbatim>\<open>OverflowError\<close> or \<^verbatim>\<open>OSError\<close>). To find out
  whether the local time is the second of two equal wall-clock times, \<^verbatim>\<open>fromtimestamp\<close>
  also converts the instant one day earlier, so that instant must be in these years
  too: the first day of the year 1 is refused.
\<close>

definition local_day :: "env \<Rightarrow> int \<Rightarrow> int" where
  "local_day e secs = (secs + utc_offset e secs) div 86400"

definition fromtimestamp_accepts :: "env \<Rightarrow> int \<Rightarrow> bool" where
  "fromtimestamp_accepts e secs =
     (let y = fst (civil_from_days (local_day e secs));
          p = fst (civil_from_days (local_day e (secs - 86400)))
      in 1 \<le> y \<and> y \<le> 9999 \<and> 1 \<le> p \<and> p \<le> 9999)"

definition local_date :: "env \<Rightarrow> int \<Rightarrow> py_exception + string" where
  "local_date e ms =
     (let secs = ms div 1000
      in if fromtimestamp_accepts e secs
         then Inr (strftime_Ymd (civil_from_days (local_day e secs)))
         else Inl ValueError)"

text \<open>\<^verbatim>\<open>v / 1000\<close> is defined on numbers (a boolean counts as 0 or 1) and raises otherwise.\<close>

definition format_date :: "env \<Rightarrow> json \<Rightarrow> py_exception + string" where
  "format_date e v = (case num_val v of None \<Rightarrow> Inl TypeError | Some ms \<Rightarrow> local_date e ms)"

section \<open>What the user sees, and the state of one script run\<close>

text \<open>
  The elements the script puts on the page, in order. \<open>StErrorExc p x\<close> is
  \<^verbatim>\<open>st.error(f"{p}{x}")\<close> for an exception \<open>x\<close>; \<open>StMarkdown\<close> holds the value handed
  to \<^verbatim>\<open>st.markdown\<close>. Input widgets show nothing of their own here: their values are the
  \<open>inputs\<close> below.
\<close>

datatype ui_element =
    StTitle string
  | StError string
  | StErrorExc string py_exception
  | StSuccess string
  | StWrite string
  | StMarkdown json
  | StTextArea string string

record inputs =
  fireflies_api_key :: string
  email :: string
  auto_email :: bool
  refresh_button :: bool
  analyze_buttons :: "string \<Rightarrow> bool"

record session_state =
  transcripts :: json
  selected_transcript_id :: json

text \<open>
  The world a run acts on: the session state, which outlives the run, the page, and the
  requests sent to the three services.
\<close>

record world =
  session :: session_state
  ui :: "ui_element list"
  posts :: "http_request list"
  completions :: "completion_request list"
  submissions :: "smtp_submission list"

definition display :: "ui_element \<Rightarrow> world \<Rightarrow> world" where
  "display x w = w\<lparr>ui := ui w @ [x]\<rparr>"

text \<open>Lines 295 to 298: a new session has neither key; an old one keeps what it has.\<close>

definition init_session_state :: "session_state option \<Rightarrow> session_state" where
  "init_session_state s =
     (case s of
        None \<Rightarrow> \<lparr>transcripts = JArr [], selected_transcript_id = JNull\<rparr>
      | Some st \<Rightarrow> st)"

section \<open>The texts of the script\<close>

text \<open>
  The string literals of the source, line by line. In the f-strings, the doubled braces
  of the source are single braces here, and each text ends where a replacement field
  begins.
\<close>

definition transcripts_query :: string where
  \<open>transcripts_query =
     ''\<newline>'' @
     ''    query Transcripts($limit: Int) {\<newline>'' @
     ''        transcripts(limit: $limit) {\<newline>'' @
     ''            id\<newline>'' @
     ''            title\<newline>'' @
     ''            date\<newline>'' @
     ''            sentences {\<newline>'' @
     ''                text\<newline>'' @
     ''                speaker_name\<newline>'' @
     ''            }\<newline>'' @
     ''        }\<newline>'' @
     ''    }\<newline>'' @
     ''    ''\<close>

definition prompt_financial :: string where
  \<open>prompt_financial =
     ''Analyze this meeting transcript and provide a JSON summary focusing on financial discussions, key figures, and monetary decisions. Include any mentioned budgets, costs, revenues, or financial projections.''\<close>

definition prompt_action_items :: string where
  \<open>prompt_action_items =
     ''Analyze this meeting transcript and provide a JSON summary of all action items, tasks, and deadlines discussed. Include who is responsible for each item and any mentioned due dates.''\<close>

definition prompt_risk_assessment :: string where
  \<open>prompt_risk_assessment =
     ''Analyze this meeting transcript and provide a JSON summary of any discussed risks, potential issues, or areas of concern. Include any mitigation strategies or risk assessments mentioned.''\<close>

definition prompt_tax_info :: string where
  \<open>prompt_tax_info =
     ''Analyze this meeting transcript and provide a JSON summary of all tax-related information discussed. Include any mentions of tax planning, changes in tax laws, or specific tax concerns of the client.''\<close>

definition prompt_client_concerns :: string where
  \<open>prompt_client_concerns =
     ''Analyze this meeting transcript and provide a JSON summary of all client questions, concerns, or areas where the client expressed confusion or needed clarification.''\<close>

definition prompt_compliance :: string where
  \<open>prompt_compliance =
     ''Analyze this meeting transcript and provide a JSON summary of all compliance and regulatory matters discussed. Include any mentions of legal requirements, industry standards, or regulatory changes.''\<close>

definition analysis_system_message :: string where
  \<open>analysis_system_message =
     ''You are an AI assistant specialized in analyzing meeting transcripts for accounting professionals. You must only reply with JSON. [no prose]''\<close>

definition analysis_user_middle :: string where
  \<open>analysis_user_middle =
     ''\<newline>'' @
     ''\<newline>'' @
     ''                    Provide the summary in the following JSON structure:\<newline>'' @
     ''                    {\<newline>'' @
     ''                        "summary": "A concise summary of the requested information",\<newline>'' @
     ''                        "key_points": ["point1", "point2", "point3"],\<newline>'' @
     ''                        "details": [\<newline>'' @
     ''                            {\<newline>'' @
     ''                                "topic": "Specific topic or item",\<newline>'' @
     ''                                "description": "Detailed description",\<newline>'' @
     ''                                "relevance": "Why this is important for the accountant"\<newline>'' @
     ''                            },\<newline>'' @
     ''                            ...\<newline>'' @
     ''                        ],\<newline>'' @
     ''                        "follow_up_suggestions": ["suggestion1", "suggestion2"]\<newline>'' @
     ''                    }\<newline>'' @
     ''\<newline>'' @
     ''                    Transcript:\<newline>'' @
     ''                    ''\<close>

definition analysis_user_tail :: string where
  \<open>analysis_user_tail =
     ''\<newline>'' @
     ''\<newline>'' @
     ''                    [Output only JSON]''\<close>

definition email_system_message :: string where
  \<open>email_system_message =
     ''You are an AI assistant helping an accountant draft a follow-up email after a client meeting. The email should sound authentic, professional, and as if it's coming directly from the accountant who organized the meeting. You must only reply with JSON containing the email content.''\<close>

definition email_user_head :: string where
  \<open>email_user_head =
     ''Based on the following meeting transcript, create a follow-up email to the client. The email should:\<newline>'' @
     ''\<newline>'' @
     ''                    1. Briefly summarize the key points discussed in the meeting\<newline>'' @
     ''                    2. Confirm any responsibilities or action items for the client\<newline>'' @
     ''                    3. Mention any deadlines discussed or set reasonable deadlines if none were specified\<newline>'' @
     ''                    4. Sound authentic and professional, as if written by the accountant who organized the meeting\<newline>'' @
     ''                    5. End with a polite closing and offer for further assistance\<newline>'' @
     ''\<newline>'' @
     ''                    Format the email with appropriate HTML tags, including <p> for paragraphs, <br> for line breaks, and any other relevant HTML formatting.\<newline>'' @
     ''\<newline>'' @
     ''                    Provide the email content in the following JSON structure:\<newline>'' @
     ''                    {\<newline>'' @
     ''                        "subject": "Meeting Follow-up: [Brief Description]",\<newline>'' @
     ''                        "body": "HTML formatted email content"\<newline>'' @
     ''                    }\<newline>'' @
     ''\<newline>'' @
     ''                    Transcript:\<newline>'' @
     ''                    ''\<close>

definition email_user_tail :: string where
  \<open>email_user_tail =
     ''\<newline>'' @
     ''\<newline>'' @
     ''                    [Output only JSON]''\<close>

definition html_head :: string where
  \<open>html_head =
     ''\<newline>'' @
     ''    <html>\<newline>'' @
     ''    <head>\<newline>'' @
     ''        <style>\<newline>'' @
     ''            body {\<newline>'' @
     ''                font-family: Arial, sans-serif;\<newline>'' @
     ''                line-height: 1.6;\<newline>'' @
     ''                color: #333;\<newline>'' @
     ''                max-width: 800px;\<newline>'' @
     ''                margin: 0 auto;\<newline>'' @
     ''                padding: 20px;\<newline>'' @
     ''            }\<newline>'' @
     ''            .header {\<newline>'' @
     ''                background-color: #007bff;\<newline>'' @
     ''                color: white;\<newline>'' @
     ''                padding: 20px;\<newline>'' @
     ''                text-align: center;\<newline>'' @
     ''            }\<newline>'' @
     ''            h1, h2 {\<newline>'' @
     ''                margin: 0;\<newline>'' @
     ''            }\<newline>'' @
     ''            h2 {\<newline>'' @
     ''                color: #007bff;\<newline>'' @
     ''                border-bottom: 2px solid #007bff;\<newline>'' @
     ''                padding-bottom: 10px;\<newline>'' @
     ''            }\<newline>'' @
     ''            .section {\<newline>'' @
     ''                margin-bottom: 30px;\<newline>'' @
     ''            }\<newline>'' @
     ''            ul {\<newline>'' @
     ''                padding-left: 20px;\<newline>'' @
     ''            }\<newline>'' @
     ''            .detail {\<newline>'' @
     ''                background-color: #f8f9fa;\<newline>'' @
     ''                border-left: 4px solid #007bff;\<newline>'' @
     ''                padding: 15px;\<newline>'' @
     ''                margin-bottom: 20px;\<newline>'' @
     ''            }\<newline>'' @
     ''            .footer {\<newline>'' @
     ''                text-align: center;\<newline>'' @
     ''                margin-top: 40px;\<newline>'' @
     ''                font-size: 0.9em;\<newline>'' @
     ''                color: #666;\<newline>'' @
     ''            }\<newline>'' @
     ''            .follow-up {\<newline>'' @
     ''                margin-top: 40px;\<newline>'' @
     ''                border-top: 2px solid #007bff;\<newline>'' @
     ''                padding-top: 20px;\<newline>'' @
     ''            }\<newline>'' @
     ''        </style>\<newline>'' @
     ''    </head>\<newline>'' @
     ''    <body>\<newline>'' @
     ''        <div class="header">\<newline>'' @
     ''            ''\<close>

definition html_after_title :: string where
  \<open>html_after_title =
     ''\<newline>'' @
     ''        </div>\<newline>'' @
     ''\<newline>'' @
     ''        <div class="section">\<newline>'' @
     ''            <h2>Summary</h2>\<newline>'' @
     ''            <p>''\<close>

definition html_after_summary :: string where
  \<open>html_after_summary =
     ''</p>\<newline>'' @
     ''        </div>\<newline>'' @
     ''\<newline>'' @
     ''        <div class="section">\<newline>'' @
     ''            <h2>Key Points</h2>\<newline>'' @
     ''            <ul>\<newline>'' @
     ''    ''\<close>

definition html_after_key_points :: string where
  \<open>html_after_key_points =
     ''\<newline>'' @
     ''            </ul>\<newline>'' @
     ''        </div>\<newline>'' @
     ''\<newline>'' @
     ''        <div class="section">\<newline>'' @
     ''            <h2>Details</h2>\<newline>'' @
     ''    ''\<close>

definition html_detail_open :: string where
  \<open>html_detail_open =
     ''\<newline>'' @
     ''            <div class="detail">\<newline>'' @
     ''                <h3>''\<close>

definition html_detail_description :: string where
  \<open>html_detail_description =
     ''</h3>\<newline>'' @
     ''                <p><strong>Description:</strong> ''\<close>

definition html_detail_relevance :: string where
  \<open>html_detail_relevance =
     ''</p>\<newline>'' @
     ''                <p><strong>Relevance:</strong> ''\<close>

definition html_detail_close :: string where
  \<open>html_detail_close =
     ''</p>\<newline>'' @
     ''            </div>\<newline>'' @
     ''        ''\<close>

definition html_after_details :: string where
  \<open>html_after_details =
     ''\<newline>'' @
     ''        </div>\<newline>'' @
     ''\<newline>'' @
     ''        <div class="section">\<newline>'' @
     ''            <h2>Follow-up Suggestions</h2>\<newline>'' @
     ''            <ul>\<newline>'' @
     ''    ''\<close>

definition html_after_suggestions :: string where
  \<open>html_after_suggestions =
     ''\<newline>'' @
     ''            </ul>\<newline>'' @
     ''        </div>\<newline>'' @
     ''\<newline>'' @
     ''        <div class="follow-up">\<newline>'' @
     ''            <h2>Follow-up Email</h2>\<newline>'' @
     ''            ''\<close>

definition html_tail :: string where
  \<open>html_tail =
     ''\<newline>'' @
     ''        </div>\<newline>'' @
     ''\<newline>'' @
     ''        <div class="footer">\<newline>'' @
     ''            <p>This analysis was generated automatically. Please review for accuracy.</p>\<newline>'' @
     ''        </div>\<newline>'' @
     ''    </body>\<newline>'' @
     ''    </html>\<newline>'' @
     ''    ''\<close>

section \<open>Transcript Fetcher and Transcript Formatter\<close>

text \<open>
  \<^verbatim>\<open>fetch_transcripts\<close> (lines 22 to 45). The request is recorded in the world; the
  result is \<^verbatim>\<open>response.json()['data']['transcripts']\<close>, whatever value that is.
\<close>

definition transcripts_request :: "string \<Rightarrow> http_request" where
  "transcripts_request api_key =
     \<lparr>url = ''https://api.fireflies.ai/graphql'',
      headers = [(''Content-Type'', ''application/json''),
                 (''Authorization'', ''Bearer '' @ api_key)],
      query = transcripts_query,
      variables = [(''limit'', 10)]\<rparr>"

definition fetch_transcripts :: "env \<Rightarrow> string \<Rightarrow> world \<Rightarrow> (py_exception + json) \<times> world" where
  "fetch_transcripts e api_key w =
     (let request = transcripts_request api_key;
          w1 = w\<lparr>posts := posts w @ [request]\<rparr>
      in case requests_post e request of
           PostRaises m \<Rightarrow> (Inl (LibraryError m), w1)
         | Response status_code body \<Rightarrow>
             if status_code \<noteq> 200
             then (Inl (PyException (''API request failed with status code '' @ str_int status_code)), w1)
             else (case body of
                     Inl m \<Rightarrow> (Inl (JSONDecodeError m), w1)
                   | Inr j \<Rightarrow> (bindE (subscript j ''data'') (\<lambda>d. subscript d ''transcripts''), w1)))"

text \<open>
  \<^verbatim>\<open>get_transcript_content\<close> (lines 47 and 48): the list comprehension, then the join.
\<close>

fun format_sentences :: "env \<Rightarrow> json list \<Rightarrow> py_exception + string list" where
  "format_sentences e [] = Inr []"
| "format_sentences e (sentence # rest) =
     bindE (subscript sentence ''speaker_name'') (\<lambda>name.
     bindE (subscript sentence ''text'') (\<lambda>spoken.
     bindE (format_sentences e rest) (\<lambda>lines.
     Inr ((py_str e name @ '': '' @ py_str e spoken) # lines))))"

definition get_transcript_content :: "env \<Rightarrow> json \<Rightarrow> py_exception + string" where
  "get_transcript_content e transcript =
     bindE (subscript transcript ''sentences'') (\<lambda>v.
     bindE (py_iter v) (\<lambda>sentences.
     bindE (format_sentences e sentences) (\<lambda>lines.
     Inr (str_join ''\<newline>'' lines))))"

section \<open>Analysis Requester\<close>

definition prompts :: "(string \<times> string) list" where
  "prompts =
     [(''financial'', prompt_financial),
      (''action_items'', prompt_action_items),
      (''risk_assessment'', prompt_risk_assessment),
      (''tax_info'', prompt_tax_info),
      (''client_concerns'', prompt_client_concerns),
      (''compliance'', prompt_compliance)]"

definition analysis_request :: "string \<Rightarrow> string \<Rightarrow> completion_request" where
  "analysis_request prompt transcript_content =
     \<lparr>model = ''gpt-4o'',
      messages = [(''system'', analysis_system_message),
                  (''user'', prompt @ analysis_user_middle @ transcript_content @ analysis_user_tail)],
      temperature = 7 / 10,
      max_tokens = 3000,
      response_format = [(''type'', ''json_object'')],
      logit_bias = [(123, 100)]\<rparr>"

definition email_request :: "string \<Rightarrow> completion_request" where
  "email_request transcript_content =
     \<lparr>model = ''gpt-4o'',
      messages = [(''system'', email_system_message),
                  (''user'', email_user_head @ transcript_content @ email_user_tail)],
      temperature = 7 / 10,
      max_tokens = 2000,
      response_format = [(''type'', ''json_object'')],
      logit_bias = [(123, 100)]\<rparr>"

text \<open>
  \<^verbatim>\<open>gpt4o_json_prompt\<close> (lines 50 to 103). The name \<^verbatim>\<open>client\<close> is bound at line 20 only
  when the API key is not empty; the lookup \<^verbatim>\<open>prompts[prompt_type]\<close> and the call are
  inside the outer \<^verbatim>\<open>try\<close>, whose handler reports and returns \<^verbatim>\<open>None\<close>. The inner
  \<^verbatim>\<open>try\<close> catches the \<^verbatim>\<open>JSONDecodeError\<close> only: \<^verbatim>\<open>choices[0]\<close> on an empty list
  (\<^verbatim>\<open>IndexError\<close>), \<^verbatim>\<open>json.loads(None)\<close> (\<^verbatim>\<open>TypeError\<close>) and every other exception
  of \<^verbatim>\<open>json.loads\<close> go to the outer handler, which does not show the raw reply.
\<close>

definition analysis_failed :: string where
  "analysis_failed = ''An error occurred while analyzing the transcript: ''"

definition gpt4o_json_prompt :: "env \<Rightarrow> string \<Rightarrow> string \<Rightarrow> world \<Rightarrow> json \<times> world" where
  "gpt4o_json_prompt e transcript_content prompt_type w =
     (if OPENAI_API_KEY e = [] then (JNull, display (StErrorExc analysis_failed (NameError ''client'')) w)
      else case map_of prompts prompt_type of
        None \<Rightarrow> (JNull, display (StErrorExc analysis_failed (KeyError prompt_type)) w)
      | Some prompt \<Rightarrow>
          (let request = analysis_request prompt transcript_content;
               w1 = w\<lparr>completions := completions w @ [request]\<rparr>
           in case chat_completions_create e request of
                CreateRaises m \<Rightarrow> (JNull, display (StErrorExc analysis_failed (LibraryError m)) w1)
              | NoChoices \<Rightarrow> (JNull, display (StErrorExc analysis_failed IndexError) w1)
              | Completion None \<Rightarrow> (JNull, display (StErrorExc analysis_failed TypeError) w1)
              | Completion (Some content) \<Rightarrow>
                  (case json_loads e content of
                     Inr v \<Rightarrow> (v, w1)
                   | Inl (JSONDecodeError m) \<Rightarrow>
                       (JNull,
                        display (StError (''Raw response: '' @ content))
                          (display (StErrorExc ''Error decoding JSON: '' (JSONDecodeError m)) w1))
                   | Inl x \<Rightarrow> (JNull, display (StErrorExc analysis_failed x) w1))))"

text \<open>\<^verbatim>\<open>generate_follow_up_email\<close> (lines 105 to 148), of the same shape.\<close>

definition email_failed :: string where
  "email_failed = ''An error occurred while generating the follow-up email: ''"

definition generate_follow_up_email :: "env \<Rightarrow> string \<Rightarrow> world \<Rightarrow> json \<times> world" where
  "generate_follow_up_email e transcript_content w =
     (if OPENAI_API_KEY e = [] then (JNull, display (StErrorExc email_failed (NameError ''client'')) w)
      else
        (let request = email_request transcript_content;
             w1 = w\<lparr>completions := completions w @ [request]\<rparr>
         in case chat_completions_create e request of
              CreateRaises m \<Rightarrow> (JNull, display (StErrorExc email_failed (LibraryError m)) w1)
            | NoChoices \<Rightarrow> (JNull, display (StErrorExc email_failed IndexError) w1)
            | Completion None \<Rightarrow> (JNull, display (StErrorExc email_failed TypeError) w1)
            | Completion (Some content) \<Rightarrow>
                (case json_loads e content of
                   Inr v \<Rightarrow> (v, w1)
                 | Inl (JSONDecodeError m) \<Rightarrow>
                     (JNull,
                      display (StError (''Raw response: '' @ content))
                        (display (StErrorExc ''Error decoding JSON for follow-up email: ''
                                    (JSONDecodeError m)) w1))
                 | Inl x \<Rightarrow> (JNull, display (StErrorExc email_failed x) w1))))"

section \<open>Report Renderer and Notifier\<close>

text \<open>
  \<^verbatim>\<open>format_analysis_to_html\<close> (lines 150 to 263). The two loops over strings append one
  \<^verbatim>\<open><li>\<close> element each turn; the loop over the details reads three keys each turn.
\<close>

fun li_items :: "env \<Rightarrow> string \<Rightarrow> json list \<Rightarrow> string" where
  "li_items e html_content [] = html_content"
| "li_items e html_content (point # rest) =
     li_items e (html_content @ ''<li>'' @ py_str e point @ ''</li>'') rest"

fun detail_items :: "env \<Rightarrow> string \<Rightarrow> json list \<Rightarrow> py_exception + string" where
  "detail_items e html_content [] = Inr html_content"
| "detail_items e html_content (detail # rest) =
     bindE (subscript detail ''topic'') (\<lambda>topic.
     bindE (subscript detail ''description'') (\<lambda>description.
     bindE (subscript detail ''relevance'') (\<lambda>relevance.
     detail_items e
       (html_content @ html_detail_open @ py_str e topic @ html_detail_description @
        py_str e description @ html_detail_relevance @ py_str e relevance @ html_detail_close)
       rest)))"

definition format_analysis_to_html :: "env \<Rightarrow> string \<Rightarrow> json \<Rightarrow> json \<Rightarrow> py_exception + string" where
  "format_analysis_to_html e analysis_type gpt4o_response follow_up_email =
     bindE (subscript gpt4o_response ''summary'') (\<lambda>summary.
     bindE (subscript gpt4o_response ''key_points'') (\<lambda>kv.
     bindE (py_iter kv) (\<lambda>key_points.
     bindE (subscript gpt4o_response ''details'') (\<lambda>dv.
     bindE (py_iter dv) (\<lambda>details.
     bindE (detail_items e
              (li_items e
                 (html_head @ ''<h1>'' @ title (replace_underscore analysis_type) @
                  '' Analysis</h1>'' @ html_after_title @ py_str e summary @ html_after_summary)
                 key_points @
               html_after_key_points)
              details) (\<lambda>html_content.
     bindE (subscript gpt4o_response ''follow_up_suggestions'') (\<lambda>fv.
     bindE (py_iter fv) (\<lambda>follow_up_suggestions.
     Inr (li_items e (html_content @ html_after_details) follow_up_suggestions @
          html_after_suggestions @ py_str e follow_up_email @ html_tail)))))))))"

text \<open>
  \<^verbatim>\<open>send_email\<close> (lines 265 to 280). Whatever lines 267 to 277 raise is caught at line
  279; the function has no \<^verbatim>\<open>return\<close>, so its value is \<^verbatim>\<open>None\<close> on both paths.
\<close>

definition submission_of :: "env \<Rightarrow> string \<Rightarrow> string \<Rightarrow> string \<Rightarrow> smtp_submission" where
  "submission_of e recipient_email subject html_content =
     \<lparr>smtp_host = ''smtp.gmail.com'', smtp_port = 465,
      login_user = GMAIL_USER e, login_password = GMAIL_PASSWORD e,
      msg_subject = subject, msg_from = GMAIL_USER e,
      msg_to = recipient_email, html_part = html_content\<rparr>"

definition send_email :: "env \<Rightarrow> string \<Rightarrow> string \<Rightarrow> string \<Rightarrow> world \<Rightarrow> (py_exception + unit) \<times> world" where
  "send_email e recipient_email subject html_content w =
     (let submission = submission_of e recipient_email subject html_content;
          w1 = w\<lparr>submissions := submissions w @ [submission]\<rparr>
      in case smtp_submit e submission of
           None \<Rightarrow> (Inr (), display (StSuccess ''Email sent successfully!'') w1)
         | Some m \<Rightarrow> (Inr (), display (StErrorExc ''Error sending email: '' (LibraryError m)) w1))"

section \<open>The analysis action\<close>

text \<open>
  Lines 369 to 375 of \<^verbatim>\<open>handle_analysis\<close>: the subject of the email. The generator
  handed to \<^verbatim>\<open>set\<close> reads the speaker of each sentence and the set hashes it; the set
  is then iterated in its own order by \<^verbatim>\<open>', '.join\<close>.
\<close>

fun speaker_names :: "json list \<Rightarrow> py_exception + json list" where
  "speaker_names [] = Inr []"
| "speaker_names (sentence # rest) =
     bindE (subscript sentence ''speaker_name'') (\<lambda>name.
     if unhashable name then Inl TypeError
     else bindE (speaker_names rest) (\<lambda>names. Inr (name # names)))"

definition email_subject :: "env \<Rightarrow> string \<Rightarrow> json \<Rightarrow> py_exception + string" where
  "email_subject e prompt_type selected_transcript =
     bindE (subscript selected_transcript ''sentences'') (\<lambda>v.
     bindE (py_iter v) (\<lambda>sentences.
     bindE (speaker_names sentences) (\<lambda>names.
     bindE (subscript selected_transcript ''date'') (\<lambda>d.
     bindE (format_date e d) (\<lambda>date.
     bindE (subscript selected_transcript ''title'') (\<lambda>t.
     bindE (py_join '', '' (set_iter e names)) (\<lambda>speakers.
     Inr (''Meeting Analysis: '' @ title (replace_underscore prompt_type) @ '' - '' @
          py_str e t @ '' - '' @ date @ '' - Speakers: '' @ speakers))))))))"

text \<open>
  \<^verbatim>\<open>next(t for t in st.session_state.transcripts if t['id'] == ...)\<close> (lines 322 to 324
  and 339 to 341): \<^verbatim>\<open>next\<close> has no default, so an exhausted generator raises
  \<^verbatim>\<open>StopIteration\<close>.
\<close>

fun next_with_id :: "json list \<Rightarrow> json \<Rightarrow> py_exception + json" where
  "next_with_id [] sid = Inl StopIteration"
| "next_with_id (t # ts) sid =
     bindE (subscript t ''id'') (\<lambda>i. if py_eq i sid then Inr t else next_with_id ts sid)"

definition selected_transcript_of :: "session_state \<Rightarrow> py_exception + json" where
  "selected_transcript_of s =
     bindE (py_iter (transcripts s)) (\<lambda>ts. next_with_id ts (selected_transcript_id s))"

text \<open>
  Lines 347 to 362: the analysis on the page. Each \<^verbatim>\<open>st.write\<close> is on the page as soon
  as it has run, so what was written before an exception stays there.
\<close>

fun write_points :: "env \<Rightarrow> json list \<Rightarrow> world \<Rightarrow> world" where
  "write_points e [] w = w"
| "write_points e (point # rest) w =
     write_points e rest (display (StWrite (''- '' @ py_str e point)) w)"

fun write_details :: "env \<Rightarrow> json list \<Rightarrow> world \<Rightarrow> (py_exception + unit) \<times> world" where
  "write_details e [] w = (Inr (), w)"
| "write_details e (detail # rest) w =
     (case subscript detail ''topic'' of
        Inl x \<Rightarrow> (Inl x, w)
      | Inr topic \<Rightarrow>
          (let w1 = display (StWrite (''#### '' @ py_str e topic)) w
           in case subscript detail ''description'' of
                Inl x \<Rightarrow> (Inl x, w1)
              | Inr description \<Rightarrow>
                  (let w2 = display (StWrite (''Description: '' @ py_str e description)) w1
                   in case subscript detail ''relevance'' of
                        Inl x \<Rightarrow> (Inl x, w2)
                      | Inr relevance \<Rightarrow>
                          write_details e rest
                            (display (StWrite '''')
                               (display (StWrite (''Relevance: '' @ py_str e relevance)) w2)))))"

definition show_analysis :: "env \<Rightarrow> string \<Rightarrow> json \<Rightarrow> json \<Rightarrow> world \<Rightarrow> (py_exception + unit) \<times> world" where
  "show_analysis e prompt_type gpt4o_response follow_up_email w =
     (let w1 = display (StWrite (''## '' @ title (replace_underscore prompt_type) @ '' Analysis'')) w
      in case subscript gpt4o_response ''summary'' of
           Inl x \<Rightarrow> (Inl x, w1)
         | Inr summary \<Rightarrow>
      (let w2 = display (StWrite ''### Key Points'')
                  (display (StWrite (''### Summary\<newline>'' @ py_str e summary)) w1)
       in case bindE (subscript gpt4o_response ''key_points'') py_iter of
            Inl x \<Rightarrow> (Inl x, w2)
          | Inr key_points \<Rightarrow>
      (let w3 = display (StWrite ''### Details'') (write_points e key_points w2)
       in case bindE (subscript gpt4o_response ''details'') py_iter of
            Inl x \<Rightarrow> (Inl x, w3)
          | Inr details \<Rightarrow>
      (case write_details e details w3 of
         (Inl x, w4) \<Rightarrow> (Inl x, w4)
       | (Inr u, w4) \<Rightarrow>
      (let w5 = display (StWrite ''### Follow-up Suggestions'') w4
       in case bindE (subscript gpt4o_response ''follow_up_suggestions'') py_iter of
            Inl x \<Rightarrow> (Inl x, w5)
          | Inr follow_up_suggestions \<Rightarrow>
      (let w6 = display (StWrite ''### Follow-up Email'') (write_points e follow_up_suggestions w5)
       in case subscript follow_up_email ''body'' of
            Inl x \<Rightarrow> (Inl x, w6)
          | Inr body \<Rightarrow> (Inr (), display (StMarkdown body) w6)))))))"

text \<open>Lines 364 to 377: the email, when it is asked for and an address is given.\<close>

definition email_analysis ::
  "env \<Rightarrow> inputs \<Rightarrow> string \<Rightarrow> json \<Rightarrow> json \<Rightarrow> json \<Rightarrow> world \<Rightarrow> (py_exception + unit) \<times> world" where
  "email_analysis e inp prompt_type selected_transcript gpt4o_response follow_up_email w =
     (if auto_email inp \<and> email inp \<noteq> [] then
        (case bindE (subscript follow_up_email ''body'')
                (format_analysis_to_html e prompt_type gpt4o_response) of
           Inl x \<Rightarrow> (Inl x, w)
         | Inr html_content \<Rightarrow>
             (case email_subject e prompt_type selected_transcript of
                Inl x \<Rightarrow> (Inl x, w)
              | Inr subject \<Rightarrow> send_email e (email inp) subject html_content w))
      else (Inr (), w))"

definition generation_failed :: string where
  "generation_failed =
     ''Failed to generate analysis or follow-up email. Please check the error messages above and try again.''"

text \<open>\<^verbatim>\<open>handle_analysis\<close> (lines 337 to 379).\<close>

definition handle_analysis :: "env \<Rightarrow> inputs \<Rightarrow> string \<Rightarrow> world \<Rightarrow> (py_exception + unit) \<times> world" where
  "handle_analysis e inp prompt_type w =
     (if truthy (selected_transcript_id (session w)) then
        (case selected_transcript_of (session w) of
           Inl x \<Rightarrow> (Inl x, w)
         | Inr selected_transcript \<Rightarrow>
        (case get_transcript_content e selected_transcript of
           Inl x \<Rightarrow> (Inl x, w)
         | Inr transcript_content \<Rightarrow>
        (let w1 = display (StWrite (''Analyzing with GPT-4o: '' @
                                    title (replace_underscore prompt_type) @ ''...'')) w
         in case gpt4o_json_prompt e transcript_content prompt_type w1 of
              (gpt4o_response, w2) \<Rightarrow>
        (case generate_follow_up_email e transcript_content w2 of
           (follow_up_email, w3) \<Rightarrow>
             if truthy gpt4o_response \<and> truthy follow_up_email then
               (case show_analysis e prompt_type gpt4o_response follow_up_email w3 of
                  (Inl x, w4) \<Rightarrow> (Inl x, w4)
                | (Inr u, w4) \<Rightarrow>
                    email_analysis e inp prompt_type selected_transcript
                      gpt4o_response follow_up_email w4)
             else (Inr (), display (StError generation_failed) w3)))))
      else (Inr (), w))"

section \<open>The script\<close>

text \<open>Lines 300 to 306: the refresh. Only line 303 assigns the transcript list.\<close>

definition refresh_transcripts :: "env \<Rightarrow> inputs \<Rightarrow> world \<Rightarrow> world" where
  "refresh_transcripts e inp w =
     (if fireflies_api_key inp \<noteq> [] \<and> refresh_button inp then
        (case fetch_transcripts e (fireflies_api_key inp) w of
           (Inr ts, w1) \<Rightarrow>
             display (StSuccess ''Transcripts refreshed successfully.'')
               (w1\<lparr>session := (session w1)\<lparr>transcripts := ts\<rparr>\<rparr>)
         | (Inl x, w1) \<Rightarrow> display (StErrorExc ''Error refreshing transcripts: '' x) w1)
      else w)"

text \<open>
  Lines 308 to 319: the selector. \<^verbatim>\<open>st.selectbox\<close> returns one of its options; the
  selection is assigned only when the list and the returned identifier are truthy.
\<close>

fun field_of_each :: "string \<Rightarrow> json list \<Rightarrow> py_exception + json list" where
  "field_of_each k [] = Inr []"
| "field_of_each k (t # ts) =
     bindE (subscript t k) (\<lambda>v. bindE (field_of_each k ts) (\<lambda>vs. Inr (v # vs)))"

definition select_transcript :: "env \<Rightarrow> world \<Rightarrow> (py_exception + unit) \<times> world" where
  "select_transcript e w =
     (if truthy (transcripts (session w)) then
        (case bindE (py_iter (transcripts (session w))) (field_of_each ''id'') of
           Inl x \<Rightarrow> (Inl x, w)
         | Inr transcript_options \<Rightarrow>
             (case bindE (py_iter (transcripts (session w))) (field_of_each ''title'') of
                Inl x \<Rightarrow> (Inl x, w)
              | Inr transcript_titles \<Rightarrow>
                  (let transcript_id = st_selectbox e transcript_options
                   in if truthy transcript_id
                      then (Inr (), w\<lparr>session := (session w)\<lparr>selected_transcript_id := transcript_id\<rparr>\<rparr>)
                      else (Inr (), w))))
      else (Inr (), w))"

text \<open>Lines 321 to 326: the transcript display.\<close>

definition show_transcript :: "env \<Rightarrow> world \<Rightarrow> (py_exception + unit) \<times> world" where
  "show_transcript e w =
     (if truthy (selected_transcript_id (session w)) then
        (case selected_transcript_of (session w) of
           Inl x \<Rightarrow> (Inl x, w)
         | Inr selected_transcript \<Rightarrow>
             (case get_transcript_content e selected_transcript of
                Inl x \<Rightarrow> (Inl x, w)
              | Inr transcript_content \<Rightarrow>
                  (Inr (), display (StTextArea ''Transcript'' transcript_content) w)))
      else (Inr (), w))"

text \<open>Lines 382 to 393: one call of \<^verbatim>\<open>handle_analysis\<close> for each button that is down.\<close>

fun handle_clicks :: "env \<Rightarrow> inputs \<Rightarrow> string list \<Rightarrow> world \<Rightarrow> (py_exception + unit) \<times> world" where
  "handle_clicks e inp [] w = (Inr (), w)"
| "handle_clicks e inp (k # ks) w =
     (if analyze_buttons inp k then
        (case handle_analysis e inp k w of
           (Inl x, w1) \<Rightarrow> (Inl x, w1)
         | (Inr u, w1) \<Rightarrow> handle_clicks e inp ks w1)
      else handle_clicks e inp ks w)"

text \<open>
  One run of the script on a session. An exception that reaches the top ends the run:
  the result is \<open>Inl\<close> of it, with the world as it was at that moment.
\<close>

definition script :: "env \<Rightarrow> inputs \<Rightarrow> session_state option \<Rightarrow> (py_exception + unit) \<times> world" where
  "script e inp s =
     (let w0 = \<lparr>session = init_session_state s, ui = [], posts = [], completions = [],
                submissions = []\<rparr>;
          w1 = (if OPENAI_API_KEY e = []
                then display (StError ''OpenAI API key is not set in the environment variables.'') w0
                else w0);
          w2 = refresh_transcripts e inp (display (StTitle ''Fireflies Meeting Prototype'') w1)
      in case select_transcript e w2 of
           (Inl x, w3) \<Rightarrow> (Inl x, w3)
         | (Inr u, w3) \<Rightarrow>
             (case show_transcript e w3 of
                (Inl x, w4) \<Rightarrow> (Inl x, w4)
              | (Inr u, w4) \<Rightarrow>
                  (case handle_clicks e inp (map fst prompts) w4 of
                     (Inl x, w5) \<Rightarrow> (Inl x, w5)
                   | (Inr u, w5) \<Rightarrow>
                       (Inr (),
                        display (StMarkdown (JStr ''Powered by Fireflies.ai and OpenAI GPT-4o''))
                          (display (StMarkdown (JStr ''---'')) w5)))))"

section \<open>Well-formed records\<close>

text \<open>
  The records of the data model, and the values that stand for them in the program: a
  transcript as the provider sends it (\<^verbatim>\<open>id\<close>, \<^verbatim>\<open>title\<close>, \<^verbatim>\<open>date\<close>, \<^verbatim>\<open>sentences\<close> with
  \<^verbatim>\<open>text\<close> and \<^verbatim>\<open>speaker_name\<close>, in the order of the query), an analysis result and a
  follow-up email as the prompts ask for them.
\<close>

record utterance =
  speaker :: string
  spoken :: string

record transcript_record =
  t_id :: string
  t_title :: string
  t_date :: int
  t_sentences :: "utterance list"

record detail_item =
  topic :: string
  description :: string
  relevance :: string

record analysis_result =
  summary :: string
  key_points :: "string list"
  details :: "detail_item list"
  follow_up_suggestions :: "string list"

definition utterance_json :: "utterance \<Rightarrow> json" where
  "utterance_json u = JObj [(''text'', JStr (spoken u)), (''speaker_name'', JStr (speaker u))]"

definition transcript_json :: "transcript_record \<Rightarrow> json" where
  "transcript_json t =
     JObj [(''id'', JStr (t_id t)), (''title'', JStr (t_title t)),
           (''date'', JInt (t_date t)), (''sentences'', JArr (map utterance_json (t_sentences t)))]"

definition detail_json :: "detail_item \<Rightarrow> json" where
  "detail_json d =
     JObj [(''topic'', JStr (topic d)), (''description'', JStr (description d)),
           (''relevance'', JStr (relevance d))]"

definition analysis_json :: "analysis_result \<Rightarrow> json" where
  "analysis_json r =
     JObj [(''summary'', JStr (summary r)),
           (''key_points'', JArr (map JStr (key_points r))),
           (''details'', JArr (map detail_json (details r))),
           (''follow_up_suggestions'', JArr (map JStr (follow_up_suggestions r)))]"

definition email_json :: "string \<Rightarrow> string \<Rightarrow> json" where
  "email_json subject body = JObj [(''subject'', JStr subject), (''body'', JStr body)]"

text \<open>
  The data envelope of a provider response, \<^verbatim>\<open>data.transcripts[]\<close>: the body is an object
  whose \<^verbatim>\<open>data\<close> is an object whose \<^verbatim>\<open>transcripts\<close> is a list. A weaker condition is
  that the body has any value at all under \<^verbatim>\<open>data\<close> and \<^verbatim>\<open>transcripts\<close>.
\<close>

definition has_envelope :: "json \<Rightarrow> bool" where
  "has_envelope body =
     (case body of
        JObj kvs \<Rightarrow>
          (case map_of kvs ''data'' of
             Some (JObj d) \<Rightarrow>
               (case map_of d ''transcripts'' of Some (JArr ts) \<Rightarrow> True | _ \<Rightarrow> False)
           | _ \<Rightarrow> False)
      | _ \<Rightarrow> False)"

definition has_transcripts_key :: "json \<Rightarrow> bool" where
  "has_transcripts_key body =
     (case body of
        JObj kvs \<Rightarrow>
          (case map_of kvs ''data'' of
             Some (JObj d) \<Rightarrow> map_of d ''transcripts'' \<noteq> None
           | _ \<Rightarrow> False)
      | _ \<Rightarrow> False)"

text \<open>The line of one utterance, and the lines of a text: \<^verbatim>\<open>s.split('\n')\<close>.\<close>

definition utterance_line :: "utterance \<Rightarrow> string" where
  "utterance_line u = speaker u @ '': '' @ spoken u"

fun split_lines :: "string \<Rightarrow> string list" where
  "split_lines [] = [[]]"
| "split_lines (c # cs) =
     (if c = CHR ''\<newline>'' then [] # split_lines cs
      else (case split_lines cs of l # ls \<Rightarrow> (c # l) # ls | [] \<Rightarrow> [[c]]))"

text \<open>The distinct elements of a list, each at its first appearance.\<close>

fun first_appearances :: "'a list \<Rightarrow> 'a list" where
  "first_appearances [] = []"
| "first_appearances (x # xs) = x # first_appearances (filter (\<lambda>y. y \<noteq> x) xs)"

text \<open>The HTML of one list item and of one detail, as the renderer writes them.\<close>

definition li_html :: "string \<Rightarrow> string" where
  "li_html p = ''<li>'' @ p @ ''</li>''"

definition detail_html :: "detail_item \<Rightarrow> string" where
  "detail_html d =
     html_detail_open @ topic d @ html_detail_description @ description d @
     html_detail_relevance @ relevance d @ html_detail_close"

text \<open>The elements that report a failure.\<close>

fun is_error :: "ui_element \<Rightarrow> bool" where
  "is_error (StError m) = True"
| "is_error (StErrorExc m x) = True"
| "is_error _ = False"

text \<open>The page elements of a well-formed analysis, as the analysis action writes them.\<close>

definition detail_page :: "detail_item \<Rightarrow> ui_element list" where
  "detail_page d =
     [StWrite (''#### '' @ topic d), StWrite (''Description: '' @ description d),
      StWrite (''Relevance: '' @ relevance d), StWrite '''']"

definition analysis_page :: "string \<Rightarrow> analysis_result \<Rightarrow> string \<Rightarrow> ui_element list" where
  "analysis_page prompt_type r body =
     [StWrite (''## '' @ title (replace_underscore prompt_type) @ '' Analysis''),
      StWrite (''### Summary\<newline>'' @ summary r),
      StWrite ''### Key Points''] @
     map (\<lambda>p. StWrite (''- '' @ p)) (key_points r) @
     [StWrite ''### Details''] @
     concat (map detail_page (details r)) @
     [StWrite ''### Follow-up Suggestions''] @
     map (\<lambda>p. StWrite (''- '' @ p)) (follow_up_suggestions r) @
     [StWrite ''### Follow-up Email'', StMarkdown (JStr body)]"

section \<open>A session to run the script on\<close>

text \<open>
  The scenario of the specification: one transcript, "Kickoff", with one utterance of
  Alice, analysed for the category \<^verbatim>\<open>financial\<close>; the service replies with a complete
  analysis and a follow-up email. A second transcript, "Review", has two speakers.
\<close>

definition kickoff :: transcript_record where
  "kickoff =
     \<lparr>t_id = ''a'', t_title = ''Kickoff'', t_date = 1700000000000,
      t_sentences = [\<lparr>speaker = ''Alice'', spoken = ''Budget is $10k''\<rparr>]\<rparr>"

definition review :: transcript_record where
  "review =
     \<lparr>t_id = ''b'', t_title = ''Review'', t_date = 1700000000000,
      t_sentences = [\<lparr>speaker = ''Alice'', spoken = ''Hello''\<rparr>,
                     \<lparr>speaker = ''Bob'', spoken = ''Hi''\<rparr>,
                     \<lparr>speaker = ''Alice'', spoken = ''Bye''\<rparr>]\<rparr>"

definition example_result :: analysis_result where
  "example_result = \<lparr>summary = ''S'', key_points = [''p1''], details = [], follow_up_suggestions = []\<rparr>"

definition example_reply :: string where
  \<open>example_reply = ''{"summary":"S","key_points":["p1"],"details":[],"follow_up_suggestions":[]}''\<close>

definition example_email_reply :: string where
  \<open>example_email_reply = ''{"subject":"Meeting Follow-up: Kickoff","body":"<p>Thanks</p>"}''\<close>

definition incomplete_reply :: string where
  \<open>incomplete_reply = ''{"key_points":["p1"],"details":[],"follow_up_suggestions":[]}''\<close>

definition example_loads :: "string \<Rightarrow> py_exception + json" where
  "example_loads s =
     (if s = example_reply then Inr (analysis_json example_result)
      else if s = example_email_reply then Inr (email_json ''Meeting Follow-up: Kickoff'' ''<p>Thanks</p>'')
      else if s = incomplete_reply
        then Inr (JObj [(''key_points'', JArr [JStr ''p1'']), (''details'', JArr []),
                        (''follow_up_suggestions'', JArr [])])
      else if s = ''{}'' then Inr (JObj [])
      else Inl (JSONDecodeError ''Expecting value: line 1 column 1 (char 0)''))"

definition provider_body :: "transcript_record list \<Rightarrow> json" where
  "provider_body ts = JObj [(''data'', JObj [(''transcripts'', JArr (map transcript_json ts))])]"

definition example_env :: env where
  "example_env =
     \<lparr>py_repr = (\<lambda>v. ''[...]''),
      set_iter = first_appearances,
      utc_offset = (\<lambda>t. 0),
      json_loads = example_loads,
      GMAIL_PASSWORD = ''app-password'',
      GMAIL_USER = ''accountant@example.com'',
      OPENAI_API_KEY = ''sk-example'',
      requests_post = (\<lambda>r. Response 200 (Inr (provider_body [kickoff]))),
      chat_completions_create =
        (\<lambda>r. Completion (Some (if max_tokens r = 3000 then example_reply else example_email_reply))),
      smtp_submit = (\<lambda>m. None),
      st_selectbox = (\<lambda>options. case options of [] \<Rightarrow> JNull | x # xs \<Rightarrow> x)\<rparr>"

definition example_inputs :: inputs where
  "example_inputs =
     \<lparr>fireflies_api_key = ''ff-key'', email = ''client@example.com'', auto_email = True,
      refresh_button = False, analyze_buttons = (\<lambda>k. False)\<rparr>"

definition example_session :: session_state where
  "example_session = \<lparr>transcripts = JArr [transcript_json kickoff], selected_transcript_id = JStr ''a''\<rparr>"

definition example_world :: world where
  "example_world = \<lparr>session = example_session, ui = [], posts = [], completions = [], submissions = []\<rparr>"

text \<open>The same environment with a language model that answers in prose.\<close>

definition prose_reply :: string where
  "prose_reply = ''Here is the summary you asked for.''"


text \<open>
  Two failing providers: one answers with status 500 and a body that is not JSON, the
  other with status 200 and a GraphQL error, whose \<^verbatim>\<open>data\<close> is \<^verbatim>\<open>null\<close>.
\<close>

definition error_500_env :: env where
  "error_500_env = example_env\<lparr>requests_post := (\<lambda>r. Response 500 (Inl ''Expecting value''))\<rparr>"

definition graphql_error_env :: env where
  "graphql_error_env =
     example_env\<lparr>requests_post :=
       (\<lambda>r. Response 200 (Inr (JObj [(''errors'', JArr [JStr ''Invalid API key'']),
                                      (''data'', JNull)])))\<rparr>"

text \<open>
  The same environment on a machine two hours east of UTC, and with a set that iterates
  in another order (each element where it appears last).
\<close>

definition east_env :: env where
  "east_env = example_env\<lparr>utc_offset := (\<lambda>t. 7200)\<rparr>"

definition other_order_env :: env where
  "other_order_env = example_env\<lparr>set_iter := remdups\<rparr>"

text \<open>
  The same environment with a language model that answers the analysis request in prose
  and the email request as asked, and with a mail relay that refuses the login.
\<close>

definition half_prose_env :: env where
  "half_prose_env =
     example_env\<lparr>chat_completions_create :=
       (\<lambda>r. Completion (Some (if max_tokens r = 3000 then prose_reply else example_email_reply)))\<rparr>"

definition refused_env :: env where
  "refused_env = example_env\<lparr>smtp_submit := (\<lambda>m. Some ''Authentication failed'')\<rparr>"

text \<open>
  A refresh is asked for, and the provider now has the transcript "Review" only, or no
  transcript at all; and a language model whose analysis has no \<^verbatim>\<open>summary\<close>.
\<close>

definition refresh_inputs :: inputs where
  "refresh_inputs = example_inputs\<lparr>refresh_button := True\<rparr>"

definition replaced_env :: env where
  "replaced_env = example_env\<lparr>requests_post := (\<lambda>r. Response 200 (Inr (provider_body [review])))\<rparr>"

definition emptied_env :: env where
  "emptied_env = example_env\<lparr>requests_post := (\<lambda>r. Response 200 (Inr (provider_body [])))\<rparr>"





definition null_body :: json where
  "null_body = JObj [(''data'', JObj [(''transcripts'', JNull)])]"

definition null_transcripts_env :: env where
  "null_transcripts_env = example_env\<lparr>requests_post := (\<lambda>r. Response 200 (Inr null_body))\<rparr>"

definition far_kickoff :: transcript_record where
  "far_kickoff = kickoff\<lparr>t_date := 253402300800000\<rparr>"

text \<open>The transcript "Kickoff" dated on the last day of the year 999.\<close>

definition old_kickoff :: transcript_record where
  "old_kickoff = kickoff\<lparr>t_date := - 30610310400000\<rparr>"

section \<open>Basic facts\<close>

lemma bindE_Inr [simp]: "bindE (Inr x) f = f x"
  by (simp add: bindE_def)

lemma bindE_Inl [simp]: "bindE (Inl x) f = Inl x"
  by (simp add: bindE_def)

lemma bindE_eq_Inr: "bindE m f = Inr y \<longleftrightarrow> (\<exists>x. m = Inr x \<and> f x = Inr y)"
  by (cases m) simp_all

lemma py_str_JStr [simp]: "py_str e (JStr s) = s"
  by (simp add: py_str_def)

lemma py_eq_JStr [simp]: "py_eq (JStr s) (JStr t) \<longleftrightarrow> s = t"
  by (simp add: py_eq.simps)

lemma subscript_utterance [simp]:
  "subscript (utterance_json u) ''speaker_name'' = Inr (JStr (speaker u))"
  "subscript (utterance_json u) ''text'' = Inr (JStr (spoken u))"
  by (simp_all add: utterance_json_def)

lemma subscript_transcript [simp]:
  "subscript (transcript_json t) ''id'' = Inr (JStr (t_id t))"
  "subscript (transcript_json t) ''title'' = Inr (JStr (t_title t))"
  "subscript (transcript_json t) ''date'' = Inr (JInt (t_date t))"
  "subscript (transcript_json t) ''sentences'' = Inr (JArr (map utterance_json (t_sentences t)))"
  by (simp_all add: transcript_json_def)

section \<open>The formatter on well-formed transcripts\<close>

lemma format_sentences_utterances:
  "format_sentences e (map utterance_json us) = Inr (map utterance_line us)"
  by (induction us) (simp_all add: utterance_line_def)

lemma get_transcript_content_record:
  "get_transcript_content e (transcript_json t) =
     Inr (str_join ''\<newline>'' (map utterance_line (t_sentences t)))"
  by (simp add: get_transcript_content_def format_sentences_utterances)

lemma split_lines_no_newline:
  "CHR ''\<newline>'' \<notin> set l \<Longrightarrow> split_lines l = [l]"
  by (induction l) auto

lemma split_lines_append:
  "CHR ''\<newline>'' \<notin> set l \<Longrightarrow> split_lines (l @ CHR ''\<newline>'' # r) = l # split_lines r"
  by (induction l) auto

lemma split_lines_str_join:
  "ls \<noteq> [] \<Longrightarrow> \<forall>l\<in>set ls. CHR ''\<newline>'' \<notin> set l \<Longrightarrow>
     split_lines (str_join ''\<newline>'' ls) = ls"
proof (induction ls rule: induct_list012)
  case 1
  then show ?case by simp
next
  case (2 x)
  then show ?case by (simp add: split_lines_no_newline)
next
  case (3 x y zs)
  then have "split_lines (str_join ''\<newline>'' (y # zs)) = y # zs"
    by simp
  moreover from 3 have "CHR ''\<newline>'' \<notin> set x"
    by simp
  ultimately show ?case
    using split_lines_append [of x "str_join ''\<newline>'' (y # zs)"] by simp
qed

lemma utterance_line_no_newline:
  "CHR ''\<newline>'' \<notin> set (speaker u) \<Longrightarrow> CHR ''\<newline>'' \<notin> set (spoken u) \<Longrightarrow>
     CHR ''\<newline>'' \<notin> set (utterance_line u)"
  by (simp add: utterance_line_def)

text \<open>
  C5. The transcript formatter depends on the transcript alone (not on the interpreter's
  environment, and it has no access to the session): for a transcript with N utterances
  it returns the N lines "speaker: text", in the order of the utterances, joined by
  newlines; for a transcript without utterances it returns the empty string. When no
  speaker and no text holds a newline, splitting a non-empty output at the newlines gives
  exactly these N lines back.
\<close>

theorem formatter_joins_utterance_lines:
  "get_transcript_content e (transcript_json t) =
     Inr (str_join ''\<newline>'' (map utterance_line (t_sentences t)))
   \<and> length (map utterance_line (t_sentences t)) = length (t_sentences t)
   \<and> (\<forall>i < length (t_sentences t).
        map utterance_line (t_sentences t) ! i =
          speaker (t_sentences t ! i) @ '': '' @ spoken (t_sentences t ! i))
   \<and> (t_sentences t = [] \<longrightarrow> get_transcript_content e (transcript_json t) = Inr [])
   \<and> (t_sentences t \<noteq> [] \<and>
        (\<forall>u\<in>set (t_sentences t). CHR ''\<newline>'' \<notin> set (speaker u) \<and> CHR ''\<newline>'' \<notin> set (spoken u))
      \<longrightarrow> split_lines (str_join ''\<newline>'' (map utterance_line (t_sentences t))) =
            map utterance_line (t_sentences t))"
proof (intro conjI)
  show "get_transcript_content e (transcript_json t) =
          Inr (str_join ''\<newline>'' (map utterance_line (t_sentences t)))"
    by (rule get_transcript_content_record)
  show "length (map utterance_line (t_sentences t)) = length (t_sentences t)"
    by simp
  show "\<forall>i < length (t_sentences t).
          map utterance_line (t_sentences t) ! i =
            speaker (t_sentences t ! i) @ '': '' @ spoken (t_sentences t ! i)"
    by (simp add: utterance_line_def)
  show "t_sentences t = [] \<longrightarrow> get_transcript_content e (transcript_json t) = Inr []"
    by (simp add: get_transcript_content_record)
  show "t_sentences t \<noteq> [] \<and>
          (\<forall>u\<in>set (t_sentences t). CHR ''\<newline>'' \<notin> set (speaker u) \<and> CHR ''\<newline>'' \<notin> set (spoken u))
        \<longrightarrow> split_lines (str_join ''\<newline>'' (map utterance_line (t_sentences t))) =
              map utterance_line (t_sentences t)"
    by (auto intro!: split_lines_str_join simp: utterance_line_def)
qed

theorem formatter_joins_utterance_lines_witness:
  "get_transcript_content example_env (transcript_json review) =
     Inr ''Alice: Hello\<newline>Bob: Hi\<newline>Alice: Bye''
   \<and> split_lines ''Alice: Hello\<newline>Bob: Hi\<newline>Alice: Bye'' = [''Alice: Hello'', ''Bob: Hi'', ''Alice: Bye'']
   \<and> get_transcript_content example_env (transcript_json (review\<lparr>t_sentences := []\<rparr>)) = Inr ''''"
proof -
  have a: "str_join ''\<newline>'' (map utterance_line (t_sentences review)) =
             ''Alice: Hello\<newline>Bob: Hi\<newline>Alice: Bye''"
    by (simp add: review_def utterance_line_def)
  have b: "t_sentences review \<noteq> [] \<and>
             (\<forall>u\<in>set (t_sentences review). CHR ''\<newline>'' \<notin> set (speaker u) \<and> CHR ''\<newline>'' \<notin> set (spoken u))"
    by (simp add: review_def)
  have c: "map utterance_line (t_sentences review) = [''Alice: Hello'', ''Bob: Hi'', ''Alice: Bye'']"
    by (simp add: review_def utterance_line_def)
  have d: "t_sentences (review\<lparr>t_sentences := []\<rparr>) = []"
    by simp
  from formatter_joins_utterance_lines [of example_env review]
       formatter_joins_utterance_lines [of example_env "review\<lparr>t_sentences := []\<rparr>"] a b c d
  show ?thesis by simp
qed

section \<open>The renderer on well-formed analysis results\<close>

lemma subscript_detail [simp]:
  "subscript (detail_json d) ''topic'' = Inr (JStr (topic d))"
  "subscript (detail_json d) ''description'' = Inr (JStr (description d))"
  "subscript (detail_json d) ''relevance'' = Inr (JStr (relevance d))"
  by (simp_all add: detail_json_def)

lemma subscript_analysis [simp]:
  "subscript (analysis_json r) ''summary'' = Inr (JStr (summary r))"
  "subscript (analysis_json r) ''key_points'' = Inr (JArr (map JStr (key_points r)))"
  "subscript (analysis_json r) ''details'' = Inr (JArr (map detail_json (details r)))"
  "subscript (analysis_json r) ''follow_up_suggestions'' = Inr (JArr (map JStr (follow_up_suggestions r)))"
  by (simp_all add: analysis_json_def)

lemma subscript_email [simp]:
  "subscript (email_json s b) ''subject'' = Inr (JStr s)"
  "subscript (email_json s b) ''body'' = Inr (JStr b)"
  by (simp_all add: email_json_def)

lemma li_items_strings:
  "li_items e html (map JStr ps) = html @ concat (map li_html ps)"
  by (induction ps arbitrary: html) (simp_all add: li_html_def)

lemma detail_items_records:
  "detail_items e html (map detail_json ds) = Inr (html @ concat (map detail_html ds))"
  by (induction ds arbitrary: html) (simp_all add: detail_html_def)

lemma format_analysis_to_html_record:
  "format_analysis_to_html e analysis_type (analysis_json r) (JStr body) =
     Inr (html_head @ (''<h1>'' @ title (replace_underscore analysis_type) @ '' Analysis</h1>'') @
          html_after_title @ summary r @ html_after_summary @
          concat (map li_html (key_points r)) @ html_after_key_points @
          concat (map detail_html (details r)) @ html_after_details @
          concat (map li_html (follow_up_suggestions r)) @ html_after_suggestions @
          body @ html_tail)"
  by (simp add: format_analysis_to_html_def li_items_strings detail_items_records)

lemma sublist_in_context: "sublist xs (as @ bs @ cs @ ds @ xs @ rest)"
proof -
  have "as @ bs @ cs @ ds @ xs @ rest = (as @ bs @ cs @ ds) @ xs @ rest"
    by simp
  then show ?thesis
    by (simp only: sublist_appendI)
qed

lemma sublist_concat_member:
  assumes "p \<in> set ps"
  shows "sublist (f p) (concat (map f ps))"
proof -
  from assms obtain as bs where "ps = as @ p # bs"
    by (auto simp: in_set_conv_decomp)
  then have "concat (map f ps) = concat (map f as) @ f p @ concat (map f bs)"
    by simp
  then show ?thesis
    by (simp only: sublist_appendI)
qed

lemma title_financial: "title (replace_underscore ''financial'') = ''Financial''"
  by (simp add: title_def replace_underscore_def is_cased_def to_upper_def to_lower_def
      ascii_lowercase_def ascii_uppercase_def)

lemma title_of_keys:
  "title (replace_underscore ''action_items'') = ''Action Items''"
  "title (replace_underscore ''risk_assessment'') = ''Risk Assessment''"
  "title (replace_underscore ''tax_info'') = ''Tax Info''"
  "title (replace_underscore ''client_concerns'') = ''Client Concerns''"
  "title (replace_underscore ''compliance'') = ''Compliance''"
  by (simp_all add: title_def replace_underscore_def is_cased_def to_upper_def to_lower_def
      ascii_lowercase_def ascii_uppercase_def)

lemma category_labels:
  "map (\<lambda>kp. title (replace_underscore (fst kp))) prompts =
     [''Financial'', ''Action Items'', ''Risk Assessment'', ''Tax Info'', ''Client Concerns'',
      ''Compliance'']"
  by (simp add: prompts_def title_financial title_of_keys)

text \<open>
  C9. For every well-formed analysis result, every category key and every email body,
  the renderer returns an HTML document that contains the heading
  \<^verbatim>\<open><h1>{Category} Analysis</h1>\<close>, where the category is the key with underscores
  replaced by spaces and in title case: \<^verbatim>\<open><h1>Financial Analysis</h1>\<close>,
  \<^verbatim>\<open><h1>Action Items Analysis</h1>\<close>, \<^verbatim>\<open><h1>Risk Assessment Analysis</h1>\<close>,
  \<^verbatim>\<open><h1>Tax Info Analysis</h1>\<close>, \<^verbatim>\<open><h1>Client Concerns Analysis</h1>\<close> and
  \<^verbatim>\<open><h1>Compliance Analysis</h1>\<close> for the six categories. It also contains, in one run
  and in order, one \<^verbatim>\<open><li>\<close> element for each key point; so each \<^verbatim>\<open><li>p</li>\<close> of a
  key point \<open>p\<close> is in the document.
\<close>

theorem html_has_heading_and_key_points:
  "\<exists>html. format_analysis_to_html e analysis_type (analysis_json r) (JStr body) = Inr html
     \<and> sublist (''<h1>'' @ title (replace_underscore analysis_type) @ '' Analysis</h1>'') html
     \<and> (analysis_type = ''financial'' \<longrightarrow> sublist ''<h1>Financial Analysis</h1>'' html)
     \<and> (analysis_type = ''action_items'' \<longrightarrow> sublist ''<h1>Action Items Analysis</h1>'' html)
     \<and> (analysis_type = ''risk_assessment'' \<longrightarrow> sublist ''<h1>Risk Assessment Analysis</h1>'' html)
     \<and> (analysis_type = ''tax_info'' \<longrightarrow> sublist ''<h1>Tax Info Analysis</h1>'' html)
     \<and> (analysis_type = ''client_concerns'' \<longrightarrow> sublist ''<h1>Client Concerns Analysis</h1>'' html)
     \<and> (analysis_type = ''compliance'' \<longrightarrow> sublist ''<h1>Compliance Analysis</h1>'' html)
     \<and> sublist (concat (map li_html (key_points r))) html
     \<and> (\<forall>p\<in>set (key_points r). sublist (''<li>'' @ p @ ''</li>'') html)"
proof -
  let ?h1 = "''<h1>'' @ title (replace_underscore analysis_type) @ '' Analysis</h1>''"
  let ?lis = "concat (map li_html (key_points r))"
  let ?rest = "html_after_key_points @ concat (map detail_html (details r)) @ html_after_details @
               concat (map li_html (follow_up_suggestions r)) @ html_after_suggestions @
               body @ html_tail"
  let ?html = "html_head @ ?h1 @ html_after_title @ summary r @ html_after_summary @ ?lis @ ?rest"
  have eq: "format_analysis_to_html e analysis_type (analysis_json r) (JStr body) = Inr ?html"
    by (simp only: format_analysis_to_html_record)
  have h1: "sublist ?h1 ?html"
    by (rule sublist_appendI)
  have label: "sublist (''<h1>'' @ l @ '' Analysis</h1>'') ?html"
    if "title (replace_underscore analysis_type) = l" for l
    using h1 that by simp
  have c1: "analysis_type = ''financial'' \<longrightarrow> sublist ''<h1>Financial Analysis</h1>'' ?html"
    using label [of "''Financial''"] by (simp add: title_financial)
  have c2: "analysis_type = ''action_items'' \<longrightarrow> sublist ''<h1>Action Items Analysis</h1>'' ?html"
    using label [of "''Action Items''"] by (simp add: title_of_keys)
  have c3: "analysis_type = ''risk_assessment'' \<longrightarrow> sublist ''<h1>Risk Assessment Analysis</h1>'' ?html"
    using label [of "''Risk Assessment''"] by (simp add: title_of_keys)
  have c4: "analysis_type = ''tax_info'' \<longrightarrow> sublist ''<h1>Tax Info Analysis</h1>'' ?html"
    using label [of "''Tax Info''"] by (simp add: title_of_keys)
  have c5: "analysis_type = ''client_concerns'' \<longrightarrow> sublist ''<h1>Client Concerns Analysis</h1>'' ?html"
    using label [of "''Client Concerns''"] by (simp add: title_of_keys)
  have c6: "analysis_type = ''compliance'' \<longrightarrow> sublist ''<h1>Compliance Analysis</h1>'' ?html"
    using label [of "''Compliance''"] by (simp add: title_of_keys)
  have lis: "sublist ?lis ?html"
  proof -
    have "?html = html_head @ ?h1 @ (html_after_title @ summary r) @ html_after_summary @ ?lis @ ?rest"
      by simp
    then show ?thesis
      by (simp only: sublist_in_context)
  qed
  have each: "\<forall>p\<in>set (key_points r). sublist (''<li>'' @ p @ ''</li>'') ?html"
  proof
    fix p assume "p \<in> set (key_points r)"
    then have "sublist (li_html p) ?lis"
      by (rule sublist_concat_member)
    then have "sublist (li_html p) ?html"
      using lis by (rule sublist_order.order_trans)
    then show "sublist (''<li>'' @ p @ ''</li>'') ?html"
      by (simp only: li_html_def)
  qed
  show ?thesis
    by (intro exI [of _ ?html] conjI) (fact eq h1 c1 c2 c3 c4 c5 c6 lis each)+
qed

theorem html_has_heading_and_key_points_witness:
  "(\<exists>html. format_analysis_to_html example_env ''financial'' (analysis_json example_result)
             (JStr ''<p>Thanks</p>'') = Inr html
     \<and> sublist ''<h1>Financial Analysis</h1>'' html
     \<and> sublist ''<li>p1</li>'' html)
   \<and> (\<exists>html. format_analysis_to_html example_env ''action_items'' (analysis_json example_result)
             (JStr ''<p>Thanks</p>'') = Inr html
     \<and> sublist ''<h1>Action Items Analysis</h1>'' html
     \<and> sublist ''<li>p1</li>'' html)
   \<and> (\<exists>html. format_analysis_to_html example_env ''tax_info'' (analysis_json example_result)
             (JStr ''<p>Thanks</p>'') = Inr html
     \<and> sublist ''<h1>Tax Info Analysis</h1>'' html
     \<and> sublist ''<li>p1</li>'' html)"
proof -
  have p: "''p1'' \<in> set (key_points example_result)"
    by (simp add: example_result_def)
  from p html_has_heading_and_key_points
         [of example_env "''financial''" example_result "''<p>Thanks</p>''"]
  have a: "\<exists>html. format_analysis_to_html example_env ''financial'' (analysis_json example_result)
             (JStr ''<p>Thanks</p>'') = Inr html
     \<and> sublist ''<h1>Financial Analysis</h1>'' html
     \<and> sublist ''<li>p1</li>'' html"
    by auto
  from p html_has_heading_and_key_points
         [of example_env "''action_items''" example_result "''<p>Thanks</p>''"]
  have b: "\<exists>html. format_analysis_to_html example_env ''action_items'' (analysis_json example_result)
             (JStr ''<p>Thanks</p>'') = Inr html
     \<and> sublist ''<h1>Action Items Analysis</h1>'' html
     \<and> sublist ''<li>p1</li>'' html"
    by auto
  from p html_has_heading_and_key_points
         [of example_env "''tax_info''" example_result "''<p>Thanks</p>''"]
  have c: "\<exists>html. format_analysis_to_html example_env ''tax_info'' (analysis_json example_result)
             (JStr ''<p>Thanks</p>'') = Inr html
     \<and> sublist ''<h1>Tax Info Analysis</h1>'' html
     \<and> sublist ''<li>p1</li>'' html"
    by auto
  from a b c show ?thesis
    by blast
qed

section \<open>What the two requests to the language model change\<close>

lemma gpt4o_json_prompt_session:
  "session (snd (gpt4o_json_prompt e tc pt w)) = session w"
  by (simp add: gpt4o_json_prompt_def display_def Let_def
      split: option.split completion_outcome.split sum.split py_exception.split)

lemma gpt4o_json_prompt_submissions:
  "submissions (snd (gpt4o_json_prompt e tc pt w)) = submissions w"
  by (simp add: gpt4o_json_prompt_def display_def Let_def
      split: option.split completion_outcome.split sum.split py_exception.split)


lemma gpt4o_json_prompt_ui:
  "take (length (ui w)) (ui (snd (gpt4o_json_prompt e tc pt w))) = ui w \<and>
   list_all is_error (drop (length (ui w)) (ui (snd (gpt4o_json_prompt e tc pt w))))"
  by (simp add: gpt4o_json_prompt_def display_def Let_def
      split: option.split completion_outcome.split sum.split py_exception.split)

lemma generate_follow_up_email_session:
  "session (snd (generate_follow_up_email e tc w)) = session w"
  by (simp add: generate_follow_up_email_def display_def Let_def
      split: option.split completion_outcome.split sum.split py_exception.split)

lemma generate_follow_up_email_submissions:
  "submissions (snd (generate_follow_up_email e tc w)) = submissions w"
  by (simp add: generate_follow_up_email_def display_def Let_def
      split: option.split completion_outcome.split sum.split py_exception.split)


lemma generate_follow_up_email_ui:
  "take (length (ui w)) (ui (snd (generate_follow_up_email e tc w))) = ui w \<and>
   list_all is_error (drop (length (ui w)) (ui (snd (generate_follow_up_email e tc w))))"
  by (simp add: generate_follow_up_email_def display_def Let_def
      split: option.split completion_outcome.split sum.split py_exception.split)





section \<open>The notifier\<close>

lemma send_email_session: "session (snd (send_email e r s h w)) = session w"
  by (simp add: send_email_def display_def Let_def split: option.split)

lemma send_email_completions: "completions (snd (send_email e r s h w)) = completions w"
  by (simp add: send_email_def display_def Let_def split: option.split)

lemma send_email_returns: "fst (send_email e r s h w) = Inr ()"
  by (simp add: send_email_def Let_def split: option.split)

text \<open>
  C10. For every recipient, subject and HTML content, and for every outcome of the SMTP
  submission, \<^verbatim>\<open>send_email\<close> raises nothing and returns the same value, so its value does
  not tell a sent message from a failed one. A failure shows on the page only: as the
  error element with the text of the exception, where a success shows the success
  element. The session state is the same after the call.
\<close>

theorem send_email_value_hides_outcome:
  "fst (send_email e recipient_email subject html_content w) = Inr ()
   \<and> fst (send_email e recipient_email subject html_content w) =
       fst (send_email e' recipient_email subject html_content w')
   \<and> session (snd (send_email e recipient_email subject html_content w)) = session w
   \<and> (\<forall>m. smtp_submit e (submission_of e recipient_email subject html_content) = Some m \<longrightarrow>
         ui (snd (send_email e recipient_email subject html_content w)) =
           ui w @ [StErrorExc ''Error sending email: '' (LibraryError m)])
   \<and> (smtp_submit e (submission_of e recipient_email subject html_content) = None \<longrightarrow>
         ui (snd (send_email e recipient_email subject html_content w)) =
           ui w @ [StSuccess ''Email sent successfully!''])"
  by (simp add: send_email_returns send_email_session)
     (simp add: send_email_def display_def Let_def)

theorem send_email_value_hides_outcome_witness:
  "fst (send_email example_env ''client@example.com'' ''S'' ''<p>H</p>'' example_world) = Inr ()
   \<and> fst (send_email (example_env\<lparr>smtp_submit := (\<lambda>m. Some ''Authentication failed'')\<rparr>)
            ''client@example.com'' ''S'' ''<p>H</p>'' example_world) = Inr ()
   \<and> ui (snd (send_email (example_env\<lparr>smtp_submit := (\<lambda>m. Some ''Authentication failed'')\<rparr>)
                 ''client@example.com'' ''S'' ''<p>H</p>'' example_world)) =
       [StErrorExc ''Error sending email: '' (LibraryError ''Authentication failed'')]
   \<and> ui (snd (send_email example_env ''client@example.com'' ''S'' ''<p>H</p>'' example_world)) =
       [StSuccess ''Email sent successfully!'']"
proof -
  have u: "ui example_world = []"
    by (simp add: example_world_def)
  have ok: "smtp_submit example_env = (\<lambda>m. None)"
    by (simp add: example_env_def)
  from send_email_value_hides_outcome
         [of example_env "''client@example.com''" "''S''" "''<p>H</p>''" example_world
             example_env example_world]
       send_email_value_hides_outcome
         [of "example_env\<lparr>smtp_submit := (\<lambda>m. Some ''Authentication failed'')\<rparr>"
             "''client@example.com''" "''S''" "''<p>H</p>''" example_world
             example_env example_world]
       u ok
  show ?thesis
    by simp
qed

section \<open>The session state across the operations\<close>

lemma display_fields [simp]:
  "session (display x w) = session w"
  "ui (display x w) = ui w @ [x]"
  "posts (display x w) = posts w"
  "completions (display x w) = completions w"
  "submissions (display x w) = submissions w"
  by (simp_all add: display_def)

lemma write_points_session: "session (write_points e ps w) = session w"
  by (induction ps arbitrary: w) simp_all

lemma write_details_session: "write_details e ds w = (res, w') \<Longrightarrow> session w' = session w"
proof (induction ds arbitrary: w)
  case Nil
  then show ?case by simp
next
  case (Cons d ds)
  then show ?case
    by (fastforce simp: Let_def split: sum.splits)
qed

lemma show_analysis_session:
  "show_analysis e pt r fe w = (res, w') \<Longrightarrow> session w' = session w"
  by (auto simp: show_analysis_def Let_def write_points_session
      split: sum.splits prod.splits dest!: write_details_session)

lemma send_email_session': "send_email e r s h w = (res, w') \<Longrightarrow> session w' = session w"
  using send_email_session [of e r s h w] by simp

lemma email_analysis_session:
  "email_analysis e inp pt st r fe w = (res, w') \<Longrightarrow> session w' = session w"
  by (auto simp: email_analysis_def split: sum.splits if_splits dest: send_email_session')

lemma gpt4o_json_prompt_session':
  "gpt4o_json_prompt e tc pt w = (r, w') \<Longrightarrow> session w' = session w"
  using gpt4o_json_prompt_session [of e tc pt w] by simp

lemma generate_follow_up_email_session':
  "generate_follow_up_email e tc w = (r, w') \<Longrightarrow> session w' = session w"
  using generate_follow_up_email_session [of e tc w] by simp

lemma handle_analysis_session:
  "handle_analysis e inp pt w = (res, w') \<Longrightarrow> session w' = session w"
  by (auto simp: handle_analysis_def Let_def
      split: sum.splits prod.splits if_splits
      dest!: gpt4o_json_prompt_session' generate_follow_up_email_session'
             show_analysis_session email_analysis_session)

lemma handle_clicks_session:
  "handle_clicks e inp ks w = (res, w') \<Longrightarrow> session w' = session w"
proof (induction ks arbitrary: w)
  case Nil
  then show ?case by simp
next
  case (Cons k ks)
  then show ?case
    by (fastforce split: sum.splits prod.splits if_splits dest: handle_analysis_session)
qed

lemma show_transcript_session:
  "show_transcript e w = (res, w') \<Longrightarrow> session w' = session w"
  by (auto simp: show_transcript_def split: sum.splits if_splits)

lemma select_transcript_transcripts:
  "select_transcript e w = (res, w') \<Longrightarrow> transcripts (session w') = transcripts (session w)"
  by (auto simp: select_transcript_def Let_def split: sum.splits if_splits)

section \<open>Replies on which the JSON parser raises\<close>

lemma gpt4o_json_prompt_unparseable:
  assumes "OPENAI_API_KEY e \<noteq> []"
    and "map_of prompts prompt_type = Some prompt"
    and "chat_completions_create e (analysis_request prompt tc) = Completion (Some content)"
    and "json_loads e content = Inl (JSONDecodeError m)"
  shows "gpt4o_json_prompt e tc prompt_type w =
           (JNull,
            w\<lparr>ui := ui w @ [StErrorExc ''Error decoding JSON: '' (JSONDecodeError m),
                             StError (''Raw response: '' @ content)],
              completions := completions w @ [analysis_request prompt tc]\<rparr>)"
  using assms by (simp add: gpt4o_json_prompt_def display_def Let_def)





lemma handle_analysis_failed:
  assumes sel: "truthy (selected_transcript_id (session w))"
    and st: "selected_transcript_of (session w) = Inr st"
    and tc: "get_transcript_content e st = Inr tc"
    and a: "gpt4o_json_prompt e tc pt
              (display (StWrite (''Analyzing with GPT-4o: '' @ title (replace_underscore pt) @ ''...'')) w)
            = (r, w2)"
    and b: "generate_follow_up_email e tc w2 = (fe, w3)"
    and f: "\<not> (truthy r \<and> truthy fe)"
  shows "handle_analysis e inp pt w = (Inr (), display (StError generation_failed) w3)"
  using assms by (cases "truthy r") (simp_all add: handle_analysis_def Let_def)


lemma example_selected:
  "truthy (selected_transcript_id (session example_world))"
  "selected_transcript_of (session example_world) = Inr (transcript_json kickoff)"
  by (simp_all add: example_world_def example_session_def selected_transcript_of_def kickoff_def)

lemma kickoff_content:
  "get_transcript_content e (transcript_json kickoff) = Inr ''Alice: Budget is $10k''"
  by (simp add: get_transcript_content_record kickoff_def utterance_line_def)

lemma map_of_prompts_financial: "map_of prompts ''financial'' = Some prompt_financial"
  by (simp add: prompts_def)

lemma example_loads_replies:
  "example_loads prose_reply = Inl (JSONDecodeError ''Expecting value: line 1 column 1 (char 0)'')"
  "example_loads example_reply = Inr (analysis_json example_result)"
  "example_loads example_email_reply = Inr (email_json ''Meeting Follow-up: Kickoff'' ''<p>Thanks</p>'')"
  by (simp_all add: example_loads_def prose_reply_def example_reply_def example_email_reply_def
      incomplete_reply_def)



section \<open>A refresh that fails\<close>

lemma has_transcripts_key_iff:
  "has_transcripts_key j \<longleftrightarrow>
     (\<exists>v. bindE (subscript j ''data'') (\<lambda>d. subscript d ''transcripts'') = Inr v)"
proof (cases j)
  case (JObj kvs)
  show ?thesis
  proof (cases "map_of kvs ''data''")
    case None
    with JObj show ?thesis by (simp add: has_transcripts_key_def)
  next
    case (Some d)
    with JObj show ?thesis
      by (cases d) (auto simp add: has_transcripts_key_def split: option.splits)
  qed
qed (simp_all add: has_transcripts_key_def)

lemma has_envelope_has_key: "has_envelope j \<Longrightarrow> has_transcripts_key j"
  by (auto simp add: has_envelope_def has_transcripts_key_def split: json.splits option.splits)

lemma fetch_transcripts_fails:
  assumes "requests_post e (transcripts_request api_key) = Response status body"
    and "status \<noteq> 200 \<or> (case body of Inl m \<Rightarrow> True | Inr j \<Rightarrow> \<not> has_transcripts_key j)"
  shows "\<exists>x. fetch_transcripts e api_key w =
           (Inl x, w\<lparr>posts := posts w @ [transcripts_request api_key]\<rparr>)"
proof (cases "status = 200")
  case False
  with assms(1) show ?thesis
    by (simp add: fetch_transcripts_def Let_def)
next
  case True
  show ?thesis
  proof (cases body)
    case (Inl m)
    with True assms(1) show ?thesis
      by (simp add: fetch_transcripts_def Let_def)
  next
    case (Inr j)
    with True assms(2) have "\<not> has_transcripts_key j"
      by simp
    then obtain x where "bindE (subscript j ''data'') (\<lambda>d. subscript d ''transcripts'') = Inl x"
      unfolding has_transcripts_key_iff
      by (cases "bindE (subscript j ''data'') (\<lambda>d. subscript d ''transcripts'')") auto
    with True Inr assms(1) show ?thesis
      by (simp add: fetch_transcripts_def Let_def)
  qed
qed

lemma refresh_transcripts_not_asked:
  "fireflies_api_key inp = [] \<or> \<not> refresh_button inp \<Longrightarrow> refresh_transcripts e inp w = w"
  by (auto simp: refresh_transcripts_def)

lemma script_transcripts:
  assumes "\<And>w. session (refresh_transcripts e inp w) = session w"
  shows "transcripts (session (snd (script e inp (Some s)))) = transcripts s"
proof -
  let ?w0 = "\<lparr>session = init_session_state (Some s), ui = [], posts = [], completions = [],
                submissions = []\<rparr>"
  let ?w1 = "if OPENAI_API_KEY e = []
             then display (StError ''OpenAI API key is not set in the environment variables.'') ?w0
             else ?w0"
  let ?w2 = "refresh_transcripts e inp (display (StTitle ''Fireflies Meeting Prototype'') ?w1)"
  have s2: "session ?w2 = s"
    by (simp add: assms init_session_state_def)
  obtain r3 w3 where a: "select_transcript e ?w2 = (r3, w3)"
    by (cases "select_transcript e ?w2")
  then have t3: "transcripts (session w3) = transcripts s"
    using select_transcript_transcripts s2 by fastforce
  obtain r4 w4 where b: "show_transcript e w3 = (r4, w4)"
    by (cases "show_transcript e w3")
  then have t4: "transcripts (session w4) = transcripts s"
    using show_transcript_session t3 by fastforce
  obtain r5 w5 where c: "handle_clicks e inp (map fst prompts) w4 = (r5, w5)"
    by (cases "handle_clicks e inp (map fst prompts) w4")
  then have t5: "transcripts (session w5) = transcripts s"
    using handle_clicks_session t4 by fastforce
  have "script e inp (Some s) =
          (case r3 of Inl x \<Rightarrow> (Inl x, w3)
           | Inr u \<Rightarrow> (case r4 of Inl x \<Rightarrow> (Inl x, w4)
              | Inr u \<Rightarrow> (case r5 of Inl x \<Rightarrow> (Inl x, w5)
                 | Inr u \<Rightarrow> (Inr (),
                     display (StMarkdown (JStr ''Powered by Fireflies.ai and OpenAI GPT-4o''))
                       (display (StMarkdown (JStr ''---'')) w5)))))"
    using a b c by (simp add: script_def Let_def split: sum.split)
  with t3 t4 t5 show ?thesis
    by (simp split: sum.split)
qed

text \<open>
  C6, as amended. When the provider answers with a status other than 200, or with a body
  that is not JSON, or with a body that has no value under \<^verbatim>\<open>data\<close> and \<^verbatim>\<open>transcripts\<close>
  (the body or its \<^verbatim>\<open>data\<close> is not an object, or lacks the key), the fetch raises; the
  refresh catches the exception and shows it as an error, and the session state is as
  before: the transcript list stored in it is the same at the end of the whole run.
\<close>

theorem failed_fetch_keeps_transcripts:
  assumes resp: "requests_post e (transcripts_request (fireflies_api_key inp)) = Response status body"
    and fail: "status \<noteq> 200 \<or> (case body of Inl m \<Rightarrow> True | Inr j \<Rightarrow> \<not> has_transcripts_key j)"
  shows "\<exists>x. fetch_transcripts e (fireflies_api_key inp) w =
               (Inl x, w\<lparr>posts := posts w @ [transcripts_request (fireflies_api_key inp)]\<rparr>)
     \<and> (fireflies_api_key inp \<noteq> [] \<and> refresh_button inp \<longrightarrow>
          refresh_transcripts e inp w =
            w\<lparr>ui := ui w @ [StErrorExc ''Error refreshing transcripts: '' x],
              posts := posts w @ [transcripts_request (fireflies_api_key inp)]\<rparr>)
     \<and> session (refresh_transcripts e inp w) = session w
     \<and> transcripts (session (snd (script e inp (Some s)))) = transcripts s"
proof -
  have ses: "session (refresh_transcripts e inp w') = session w'" for w'
  proof (cases "fireflies_api_key inp \<noteq> [] \<and> refresh_button inp")
    case True
    from fetch_transcripts_fails [OF resp fail, of w'] obtain x where
      "fetch_transcripts e (fireflies_api_key inp) w' =
         (Inl x, w'\<lparr>posts := posts w' @ [transcripts_request (fireflies_api_key inp)]\<rparr>)"
      by blast
    with True show ?thesis
      by (simp add: refresh_transcripts_def)
  next
    case False
    then have "refresh_transcripts e inp w' = w'"
      by (intro refresh_transcripts_not_asked) blast
    then show ?thesis
      by simp
  qed
  from fetch_transcripts_fails [OF resp fail, of w] obtain x where
    f: "fetch_transcripts e (fireflies_api_key inp) w =
         (Inl x, w\<lparr>posts := posts w @ [transcripts_request (fireflies_api_key inp)]\<rparr>)"
    by blast
  have r: "fireflies_api_key inp \<noteq> [] \<and> refresh_button inp \<longrightarrow>
          refresh_transcripts e inp w =
            w\<lparr>ui := ui w @ [StErrorExc ''Error refreshing transcripts: '' x],
              posts := posts w @ [transcripts_request (fireflies_api_key inp)]\<rparr>"
    using f by (simp add: refresh_transcripts_def display_def)
  have t: "transcripts (session (snd (script e inp (Some s)))) = transcripts s"
    using ses by (rule script_transcripts)
  from f r ses [of w] t show ?thesis
    by blast
qed

theorem failed_fetch_keeps_transcripts_witness:
  "(\<exists>x. refresh_transcripts error_500_env (example_inputs\<lparr>refresh_button := True\<rparr>) example_world =
          example_world\<lparr>ui := ui example_world @ [StErrorExc ''Error refreshing transcripts: '' x],
                        posts := posts example_world @ [transcripts_request ''ff-key'']\<rparr>)
   \<and> transcripts (session (snd (script error_500_env (example_inputs\<lparr>refresh_button := True\<rparr>)
                                  (Some example_session)))) = JArr [transcript_json kickoff]
   \<and> (\<exists>x. refresh_transcripts graphql_error_env (example_inputs\<lparr>refresh_button := True\<rparr>) example_world =
          example_world\<lparr>ui := ui example_world @ [StErrorExc ''Error refreshing transcripts: '' x],
                        posts := posts example_world @ [transcripts_request ''ff-key'']\<rparr>)
   \<and> transcripts (session (snd (script graphql_error_env (example_inputs\<lparr>refresh_button := True\<rparr>)
                                  (Some example_session)))) = JArr [transcript_json kickoff]"
proof -
  let ?inp = "example_inputs\<lparr>refresh_button := True\<rparr>"
  have k: "fireflies_api_key ?inp = ''ff-key''" "fireflies_api_key ?inp \<noteq> []" "refresh_button ?inp"
    by (simp_all add: example_inputs_def)
  have r1: "requests_post error_500_env (transcripts_request (fireflies_api_key ?inp)) =
              Response 500 (Inl ''Expecting value'')"
    by (simp add: error_500_env_def)
  have f1: "(500::int) \<noteq> 200 \<or>
            (case (Inl ''Expecting value'' :: string + json) of Inl m \<Rightarrow> True
             | Inr j \<Rightarrow> \<not> has_transcripts_key j)"
    by simp
  have r2: "requests_post graphql_error_env (transcripts_request (fireflies_api_key ?inp)) =
              Response 200 (Inr (JObj [(''errors'', JArr [JStr ''Invalid API key'']), (''data'', JNull)]))"
    by (simp add: graphql_error_env_def)
  have f2: "(200::int) \<noteq> 200 \<or>
            (case (Inr (JObj [(''errors'', JArr [JStr ''Invalid API key'']), (''data'', JNull)])
                   :: string + json) of Inl m \<Rightarrow> True | Inr j \<Rightarrow> \<not> has_transcripts_key j)"
    by (simp add: has_transcripts_key_def)
  have t: "transcripts example_session = JArr [transcript_json kickoff]"
    by (simp add: example_session_def)
  from failed_fetch_keeps_transcripts [OF r1 f1, of example_world example_session]
       failed_fetch_keeps_transcripts [OF r2 f2, of example_world example_session]
       k t
  show ?thesis
    by auto
qed

text \<open>
  Against C6 as it was stated: the provider answers with status 200 and a body whose
  \<^verbatim>\<open>data.transcripts\<close> is \<^verbatim>\<open>null\<close>, which is not the list envelope. The fetch does
  not raise: it returns \<^verbatim>\<open>None\<close>, the refresh stores it over the transcript list and
  reports success.
\<close>

theorem null_transcripts_replace_the_list:
  "\<not> has_envelope null_body
   \<and> transcripts (session example_world) = JArr [transcript_json kickoff]
   \<and> fetch_transcripts null_transcripts_env ''ff-key'' example_world =
       (Inr JNull, example_world\<lparr>posts := [transcripts_request ''ff-key'']\<rparr>)
   \<and> refresh_transcripts null_transcripts_env refresh_inputs example_world =
       example_world
         \<lparr>session := \<lparr>transcripts = JNull, selected_transcript_id = JStr ''a''\<rparr>,
           ui := [StSuccess ''Transcripts refreshed successfully.''],
           posts := [transcripts_request ''ff-key'']\<rparr>"
  by (simp add: has_envelope_def null_body_def example_world_def example_session_def
      fetch_transcripts_def refresh_transcripts_def null_transcripts_env_def refresh_inputs_def
      example_inputs_def display_def Let_def)

section \<open>The subject of the email\<close>

lemma speaker_names_utterances:
  "speaker_names (map utterance_json us) = Inr (map (\<lambda>u. JStr (speaker u)) us)"
  by (induction us) simp_all

lemma the_strs_strings: "the_strs (map JStr ss) = Inr ss"
  by (induction ss) simp_all

lemma py_join_strings: "py_join sep (map JStr ss) = Inr (str_join sep ss)"
  by (simp add: py_join_def the_strs_strings)

lemma email_subject_record:
  assumes "set_iter e (map (\<lambda>u. JStr (speaker u)) (t_sentences t)) = map JStr order"
    and "local_date e (t_date t) = Inr date"
  shows "email_subject e pt (transcript_json t) =
           Inr (''Meeting Analysis: '' @ title (replace_underscore pt) @ '' - '' @ t_title t @
                '' - '' @ date @ '' - Speakers: '' @ str_join '', '' order)"
  using assms
  by (simp add: email_subject_def speaker_names_utterances format_date_def py_join_strings)

lemma strings_of_values:
  assumes "set vs \<subseteq> JStr ` S"
  shows "\<exists>ss. vs = map JStr ss"
proof -
  from assms have "\<forall>v\<in>set vs. \<exists>s. v = JStr s"
    by auto
  then show ?thesis
    by (simp only: ex_map_conv)
qed

lemma local_date_accepted:
  "fromtimestamp_accepts e (ms div 1000) \<Longrightarrow>
     local_date e ms = Inr (strftime_Ymd (civil_from_days (local_day e (ms div 1000))))"
  by (simp add: local_date_def Let_def)

lemma local_date_refused_instant:
  "\<not> fromtimestamp_accepts e (ms div 1000) \<Longrightarrow> local_date e ms = Inl ValueError"
  by (simp add: local_date_def Let_def)

text \<open>
  C3, as amended. For every well-formed transcript whose timestamp
  \<^verbatim>\<open>datetime.fromtimestamp\<close> accepts, and every category key, the subject of the email is
  "Meeting Analysis: {label} - {title} - {date} - Speakers: {names}". The label is the
  key with spaces for underscores, in title case: Financial, Action Items, Risk
  Assessment, Tax Info, Client Concerns and Compliance for the six categories. The date
  is the calendar day of the millisecond timestamp in the local time of the process, that
  is, of the instant moved by the local offset from UTC, printed as year, month and day.
  The names are the distinct speaker names, each once, joined by a comma and a space, in
  the order in which the set of them is iterated, which the transcript and the category
  do not fix.
\<close>

theorem email_subject_of_transcript:
  assumes iter: "distinct (set_iter e (map (\<lambda>u. JStr (speaker u)) (t_sentences t)))
                 \<and> set (set_iter e (map (\<lambda>u. JStr (speaker u)) (t_sentences t))) =
                   set (map (\<lambda>u. JStr (speaker u)) (t_sentences t))"
    and accepted: "fromtimestamp_accepts e (t_date t div 1000)"
  shows "\<exists>order.
           email_subject e prompt_type (transcript_json t) =
             Inr (''Meeting Analysis: '' @ title (replace_underscore prompt_type) @ '' - '' @
                  t_title t @ '' - '' @
                  strftime_Ymd (civil_from_days (local_day e (t_date t div 1000))) @
                  '' - Speakers: '' @ str_join '', '' order)
         \<and> distinct order
         \<and> set order = set (map speaker (t_sentences t))
         \<and> set_iter e (map (\<lambda>u. JStr (speaker u)) (t_sentences t)) = map JStr order
         \<and> local_day e (t_date t div 1000) =
             (t_date t div 1000 + utc_offset e (t_date t div 1000)) div 86400
         \<and> (prompt_type = ''financial'' \<longrightarrow> title (replace_underscore prompt_type) = ''Financial'')
         \<and> (prompt_type = ''action_items'' \<longrightarrow> title (replace_underscore prompt_type) = ''Action Items'')
         \<and> (prompt_type = ''risk_assessment'' \<longrightarrow>
              title (replace_underscore prompt_type) = ''Risk Assessment'')
         \<and> (prompt_type = ''tax_info'' \<longrightarrow> title (replace_underscore prompt_type) = ''Tax Info'')
         \<and> (prompt_type = ''client_concerns'' \<longrightarrow>
              title (replace_underscore prompt_type) = ''Client Concerns'')
         \<and> (prompt_type = ''compliance'' \<longrightarrow> title (replace_underscore prompt_type) = ''Compliance'')"
proof -
  let ?names = "map (\<lambda>u. JStr (speaker u)) (t_sentences t)"
  let ?date = "strftime_Ymd (civil_from_days (local_day e (t_date t div 1000)))"
  from iter have "set (set_iter e ?names) \<subseteq> JStr ` set (map speaker (t_sentences t))"
    by auto
  then obtain order where o: "set_iter e ?names = map JStr order"
    using strings_of_values by blast
  have inj: "inj JStr"
    by (simp add: inj_def)
  from iter o have d: "distinct order"
    by (simp add: distinct_map)
  from iter o have "JStr ` set order = JStr ` set (map speaker (t_sentences t))"
    by (simp add: image_image)
  then have s: "set order = set (map speaker (t_sentences t))"
    using inj by (simp only: inj_image_eq_iff)
  from accepted have l: "local_date e (t_date t) = Inr ?date"
    by (rule local_date_accepted)
  have sub: "email_subject e prompt_type (transcript_json t) =
             Inr (''Meeting Analysis: '' @ title (replace_underscore prompt_type) @ '' - '' @
                  t_title t @ '' - '' @ ?date @ '' - Speakers: '' @ str_join '', '' order)"
    by (rule email_subject_record [OF o l])
  have day: "local_day e (t_date t div 1000) =
             (t_date t div 1000 + utc_offset e (t_date t div 1000)) div 86400"
    by (simp add: local_day_def)
  have l1: "prompt_type = ''financial'' \<longrightarrow> title (replace_underscore prompt_type) = ''Financial''"
    by (simp add: title_financial)
  have l2: "prompt_type = ''action_items'' \<longrightarrow> title (replace_underscore prompt_type) = ''Action Items''"
    by (simp add: title_of_keys)
  have l3: "prompt_type = ''risk_assessment'' \<longrightarrow>
              title (replace_underscore prompt_type) = ''Risk Assessment''"
    by (simp add: title_of_keys)
  have l4: "prompt_type = ''tax_info'' \<longrightarrow> title (replace_underscore prompt_type) = ''Tax Info''"
    by (simp add: title_of_keys)
  have l5: "prompt_type = ''client_concerns'' \<longrightarrow>
              title (replace_underscore prompt_type) = ''Client Concerns''"
    by (simp add: title_of_keys)
  have l6: "prompt_type = ''compliance'' \<longrightarrow> title (replace_underscore prompt_type) = ''Compliance''"
    by (simp add: title_of_keys)
  show ?thesis
    by (intro exI [of _ order] conjI) (fact sub d s o day l1 l2 l3 l4 l5 l6)+
qed

lemma first_and_fourth: "\<exists>x. A x \<and> B x \<and> C x \<and> D x \<and> R x \<Longrightarrow> \<exists>x. A x \<and> D x"
  by blast

lemma accepts_example:
  "fromtimestamp_accepts example_env (1700000000000 div 1000)"
  "fromtimestamp_accepts east_env (1700000000000 div 1000)"
  "fromtimestamp_accepts other_order_env (1700000000000 div 1000)"
  "fromtimestamp_accepts refused_env (1700000000000 div 1000)"
  "fromtimestamp_accepts example_env (- 30610310400000 div 1000)"
  "\<not> fromtimestamp_accepts example_env (253402300800000 div 1000)"
  by code_simp+

lemma days_example:
  "strftime_Ymd (civil_from_days (local_day example_env (1700000000000 div 1000))) = ''2023-11-14''"
  "strftime_Ymd (civil_from_days (local_day east_env (1700000000000 div 1000))) = ''2023-11-15''"
  "strftime_Ymd (civil_from_days (local_day other_order_env (1700000000000 div 1000))) = ''2023-11-14''"
  "strftime_Ymd (civil_from_days (local_day refused_env (1700000000000 div 1000))) = ''2023-11-14''"
  "strftime_Ymd (civil_from_days (local_day example_env (- 30610310400000 div 1000))) = ''999-12-31''"
  "strftime_Ymd (civil_from_days (1700000000000 div 1000 div 86400)) = ''2023-11-14''"
  by code_simp+

lemma local_date_example: "local_date example_env 1700000000000 = Inr ''2023-11-14''"
  using local_date_accepted [of example_env 1700000000000] accepts_example days_example by simp

lemma local_date_other_order: "local_date other_order_env 1700000000000 = Inr ''2023-11-14''"
  using local_date_accepted [of other_order_env 1700000000000] accepts_example days_example by simp

lemma local_date_east: "local_date east_env 1700000000000 = Inr ''2023-11-15''"
  using local_date_accepted [of east_env 1700000000000] accepts_example days_example by simp

lemma local_date_refused: "local_date refused_env 1700000000000 = Inr ''2023-11-14''"
  using local_date_accepted [of refused_env 1700000000000] accepts_example days_example by simp

lemma local_date_far: "local_date example_env 253402300800000 = Inl ValueError"
  using local_date_refused_instant [of example_env 253402300800000] accepts_example by simp

theorem email_subject_of_transcript_witness:
  "email_subject example_env ''action_items'' (transcript_json review) =
     Inr ''Meeting Analysis: Action Items - Review - 2023-11-14 - Speakers: Alice, Bob''
   \<and> email_subject example_env ''financial'' (transcript_json old_kickoff) =
     Inr ''Meeting Analysis: Financial - Kickoff - 999-12-31 - Speakers: Alice''"
proof (intro conjI)
  show "email_subject example_env ''action_items'' (transcript_json review) =
     Inr ''Meeting Analysis: Action Items - Review - 2023-11-14 - Speakers: Alice, Bob''"
  proof -
    let ?names = "map (\<lambda>u. JStr (speaker u)) (t_sentences review)"
    have it: "set_iter example_env ?names = [JStr ''Alice'', JStr ''Bob'']"
      by (simp add: example_env_def review_def)
    have n: "set ?names = {JStr ''Alice'', JStr ''Bob''}"
      by (auto simp add: review_def)
    have iter: "distinct (set_iter example_env ?names) \<and> set (set_iter example_env ?names) = set ?names"
      unfolding it n by simp
    have d: "t_date review = 1700000000000"
      by (simp add: review_def)
    have acc: "fromtimestamp_accepts example_env (t_date review div 1000)"
      unfolding d by (rule accepts_example)
    from first_and_fourth [OF email_subject_of_transcript [OF iter acc, of "''action_items''"]]
    obtain order where
      s: "email_subject example_env ''action_items'' (transcript_json review) =
            Inr (''Meeting Analysis: '' @ title (replace_underscore ''action_items'') @ '' - '' @
                 t_title review @ '' - '' @
                 strftime_Ymd (civil_from_days (local_day example_env (t_date review div 1000))) @
                 '' - Speakers: '' @ str_join '', '' order)"
      and o: "set_iter example_env ?names = map JStr order"
      by blast
    have l: "title (replace_underscore ''action_items'') = ''Action Items''"
      by (rule title_of_keys)
    from o it have "order = [''Alice'', ''Bob'']"
      by (cases order; simp; cases "tl order"; auto)
    with s l show ?thesis
      unfolding d days_example by (simp add: review_def)
  qed
  show "email_subject example_env ''financial'' (transcript_json old_kickoff) =
     Inr ''Meeting Analysis: Financial - Kickoff - 999-12-31 - Speakers: Alice''"
  proof -
    let ?names = "map (\<lambda>u. JStr (speaker u)) (t_sentences old_kickoff)"
    have it: "set_iter example_env ?names = [JStr ''Alice'']"
      by (simp add: example_env_def old_kickoff_def kickoff_def)
    have n: "set ?names = {JStr ''Alice''}"
      by (simp add: old_kickoff_def kickoff_def)
    have iter: "distinct (set_iter example_env ?names) \<and> set (set_iter example_env ?names) = set ?names"
      unfolding it n by simp
    have d: "t_date old_kickoff = - 30610310400000"
      by (simp add: old_kickoff_def)
    have acc: "fromtimestamp_accepts example_env (t_date old_kickoff div 1000)"
      unfolding d by (rule accepts_example)
    from first_and_fourth [OF email_subject_of_transcript [OF iter acc, of "''financial''"]]
    obtain order where
      s: "email_subject example_env ''financial'' (transcript_json old_kickoff) =
            Inr (''Meeting Analysis: '' @ title (replace_underscore ''financial'') @ '' - '' @
                 t_title old_kickoff @ '' - '' @
                 strftime_Ymd (civil_from_days (local_day example_env (t_date old_kickoff div 1000))) @
                 '' - Speakers: '' @ str_join '', '' order)"
      and o: "set_iter example_env ?names = map JStr order"
      by blast
    have l: "title (replace_underscore ''financial'') = ''Financial''"
      by (rule title_financial)
    from o it have "order = [''Alice'']"
      by (cases order) auto
    with s l show ?thesis
      unfolding d days_example by (simp add: old_kickoff_def kickoff_def)
  qed
qed

text \<open>
  Against C3 as it was stated: on a machine two hours east of UTC the subject of the
  "Kickoff" email carries the day 2023-11-15, while the UTC day of the timestamp is
  2023-11-14; with a set that iterates in another order the speakers of "Review" come
  as "Bob, Alice", while the order of first appearance is Alice, Bob, so that the same
  transcript and category give two different subjects in two environments; and for a
  timestamp in the year 10000 there is no subject: the conversion of the date raises.
\<close>

theorem email_subject_local_day_and_set_order:
  "email_subject east_env ''financial'' (transcript_json kickoff) =
     Inr ''Meeting Analysis: Financial - Kickoff - 2023-11-15 - Speakers: Alice''
   \<and> strftime_Ymd (civil_from_days (t_date kickoff div 1000 div 86400)) = ''2023-11-14''
   \<and> \<not> sublist ''2023-11-14'' ''Meeting Analysis: Financial - Kickoff - 2023-11-15 - Speakers: Alice''
   \<and> email_subject other_order_env ''financial'' (transcript_json review) =
     Inr ''Meeting Analysis: Financial - Review - 2023-11-14 - Speakers: Bob, Alice''
   \<and> first_appearances (map speaker (t_sentences review)) = [''Alice'', ''Bob'']
   \<and> \<not> sublist ''Alice, Bob'' ''Meeting Analysis: Financial - Review - 2023-11-14 - Speakers: Bob, Alice''
   \<and> email_subject example_env ''financial'' (transcript_json review) \<noteq>
     email_subject other_order_env ''financial'' (transcript_json review)
   \<and> email_subject example_env ''financial'' (transcript_json far_kickoff) = Inl ValueError"
proof -
  have a: "email_subject east_env ''financial'' (transcript_json kickoff) =
     Inr ''Meeting Analysis: Financial - Kickoff - 2023-11-15 - Speakers: Alice''"
  proof -
    have "set_iter east_env (map (\<lambda>u. JStr (speaker u)) (t_sentences kickoff)) = map JStr [''Alice'']"
      by (simp add: east_env_def example_env_def kickoff_def)
    moreover have "local_date east_env (t_date kickoff) = Inr ''2023-11-15''"
      using local_date_east by (simp add: kickoff_def)
    ultimately show ?thesis
      using email_subject_record [of east_env kickoff "[''Alice'']" "''2023-11-15''" "''financial''"]
      by (simp add: title_financial kickoff_def)
  qed
  have b: "strftime_Ymd (civil_from_days (t_date kickoff div 1000 div 86400)) = ''2023-11-14''"
    using days_example by (simp add: kickoff_def)
  have c: "\<not> sublist ''2023-11-14'' ''Meeting Analysis: Financial - Kickoff - 2023-11-15 - Speakers: Alice''"
    by code_simp
  have d: "email_subject other_order_env ''financial'' (transcript_json review) =
     Inr ''Meeting Analysis: Financial - Review - 2023-11-14 - Speakers: Bob, Alice''"
  proof -
    have "set_iter other_order_env (map (\<lambda>u. JStr (speaker u)) (t_sentences review)) =
            map JStr [''Bob'', ''Alice'']"
      by (simp add: other_order_env_def review_def)
    moreover have "local_date other_order_env (t_date review) = Inr ''2023-11-14''"
      using local_date_other_order by (simp add: review_def)
    ultimately show ?thesis
      using email_subject_record [of other_order_env review "[''Bob'', ''Alice'']" "''2023-11-14''" "''financial''"]
      by (simp add: title_financial review_def)
  qed
  have e: "first_appearances (map speaker (t_sentences review)) = [''Alice'', ''Bob'']"
    by (simp add: review_def)
  have f: "\<not> sublist ''Alice, Bob'' ''Meeting Analysis: Financial - Review - 2023-11-14 - Speakers: Bob, Alice''"
    by code_simp
  have g: "email_subject example_env ''financial'' (transcript_json review) =
     Inr ''Meeting Analysis: Financial - Review - 2023-11-14 - Speakers: Alice, Bob''"
  proof -
    have "set_iter example_env (map (\<lambda>u. JStr (speaker u)) (t_sentences review)) =
            map JStr [''Alice'', ''Bob'']"
      by (simp add: example_env_def review_def)
    moreover have "local_date example_env (t_date review) = Inr ''2023-11-14''"
      using local_date_example by (simp add: review_def)
    ultimately show ?thesis
      using email_subject_record [of example_env review "[''Alice'', ''Bob'']" "''2023-11-14''" "''financial''"]
      by (simp add: title_financial review_def)
  qed
  have h: "email_subject example_env ''financial'' (transcript_json far_kickoff) = Inl ValueError"
    using local_date_far
    by (simp add: email_subject_def speaker_names_utterances format_date_def far_kickoff_def)
  from a b c d e f g h show ?thesis
    by simp
qed

section \<open>The analysis action when a step fails\<close>

lemma write_points_strings:
  "write_points e (map JStr ps) w = w\<lparr>ui := ui w @ map (\<lambda>p. StWrite (''- '' @ p)) ps\<rparr>"
  by (induction ps arbitrary: w) (simp_all add: display_def)

lemma write_details_records:
  "write_details e (map detail_json ds) w = (Inr (), w\<lparr>ui := ui w @ concat (map detail_page ds)\<rparr>)"
  by (induction ds arbitrary: w) (simp_all add: display_def detail_page_def)

lemma show_analysis_record:
  "show_analysis e pt (analysis_json r) (email_json s b) w =
     (Inr (), w\<lparr>ui := ui w @ analysis_page pt r b\<rparr>)"
  by (simp add: show_analysis_def write_points_strings write_details_records display_def
      analysis_page_def)

lemma gpt4o_json_prompt_parsed:
  assumes "OPENAI_API_KEY e \<noteq> []"
    and "map_of prompts pt = Some prompt"
    and "chat_completions_create e (analysis_request prompt tc) = Completion (Some content)"
    and "json_loads e content = Inr v"
  shows "gpt4o_json_prompt e tc pt w =
           (v, w\<lparr>completions := completions w @ [analysis_request prompt tc]\<rparr>)"
  using assms by (simp add: gpt4o_json_prompt_def Let_def)

lemma generate_follow_up_email_parsed:
  assumes "OPENAI_API_KEY e \<noteq> []"
    and "chat_completions_create e (email_request tc) = Completion (Some content)"
    and "json_loads e content = Inr v"
  shows "generate_follow_up_email e tc w =
           (v, w\<lparr>completions := completions w @ [email_request tc]\<rparr>)"
  using assms by (simp add: generate_follow_up_email_def Let_def)

lemma ui_extension:
  assumes "take (length xs) ys = xs"
  shows "ys = xs @ drop (length xs) ys"
  using assms by (metis append_take_drop_id)

text \<open>
  C4. In an analysis action on a selected transcript: when the analysis call or the
  email-draft call returns no result (so also when exactly one of them does), the action
  shows nothing but the line that announces the analysis, the errors of the failing
  calls and the final error; it sends no email and leaves the session state as it was.
  When both calls succeed, the analysis is on the page, and the submission of the email
  then fails, the action does not raise: the page keeps everything that was on it and
  gains one error element for the send, and the session state is as before.
\<close>

theorem partial_failure_policy:
  assumes sel: "truthy (selected_transcript_id (session w))"
    and st: "selected_transcript_of (session w) = Inr st"
    and tc: "get_transcript_content e st = Inr tc"
    and a: "gpt4o_json_prompt e tc pt
              (display (StWrite (''Analyzing with GPT-4o: '' @ title (replace_underscore pt) @ ''...'')) w)
            = (r, w2)"
    and b: "generate_follow_up_email e tc w2 = (fe, w3)"
  shows "(r = JNull \<or> fe = JNull \<longrightarrow>
            handle_analysis e inp pt w = (Inr (), display (StError generation_failed) w3)
            \<and> (\<exists>errs. ui w3 = ui w @ [StWrite (''Analyzing with GPT-4o: '' @
                                          title (replace_underscore pt) @ ''...'')] @ errs
                       \<and> list_all is_error errs)
            \<and> session w3 = session w \<and> submissions w3 = submissions w)
       \<and> (truthy r \<and> truthy fe \<longrightarrow>
            (\<forall>w4 html subject m.
               show_analysis e pt r fe w3 = (Inr (), w4) \<and> auto_email inp \<and> email inp \<noteq> [] \<and>
               bindE (subscript fe ''body'') (format_analysis_to_html e pt r) = Inr html \<and>
               email_subject e pt st = Inr subject \<and>
               smtp_submit e (submission_of e (email inp) subject html) = Some m \<longrightarrow>
                 handle_analysis e inp pt w =
                   (Inr (),
                    w4\<lparr>ui := ui w4 @ [StErrorExc ''Error sending email: '' (LibraryError m)],
                       submissions := submissions w4 @ [submission_of e (email inp) subject html]\<rparr>)
                 \<and> session w4 = session w))"
proof (intro conjI impI allI)
  let ?w1 = "display (StWrite (''Analyzing with GPT-4o: '' @ title (replace_underscore pt) @ ''...'')) w"
  have w2: "w2 = snd (gpt4o_json_prompt e tc pt ?w1)" and w3: "w3 = snd (generate_follow_up_email e tc w2)"
    using a b by simp_all
  have ses3: "session w3 = session w"
    by (simp add: w3 w2 generate_follow_up_email_session gpt4o_json_prompt_session)
  {
    assume f: "r = JNull \<or> fe = JNull"
    then have "\<not> (truthy r \<and> truthy fe)"
      by auto
    with sel st tc a b
    show "handle_analysis e inp pt w = (Inr (), display (StError generation_failed) w3)"
      by (rule handle_analysis_failed)
    have u2: "ui w2 = ui ?w1 @ drop (length (ui ?w1)) (ui w2)"
      unfolding w2 using gpt4o_json_prompt_ui [of ?w1 e tc pt] by (intro ui_extension) blast
    have e2: "list_all is_error (drop (length (ui ?w1)) (ui w2))"
      unfolding w2 using gpt4o_json_prompt_ui [of ?w1 e tc pt] by blast
    have u3: "ui w3 = ui w2 @ drop (length (ui w2)) (ui w3)"
      unfolding w3 using generate_follow_up_email_ui [of w2 e tc] by (intro ui_extension) blast
    have e3: "list_all is_error (drop (length (ui w2)) (ui w3))"
      unfolding w3 using generate_follow_up_email_ui [of w2 e tc] by blast
    let ?errs = "drop (length (ui ?w1)) (ui w2) @ drop (length (ui w2)) (ui w3)"
    have "ui w3 = ui w @ [StWrite (''Analyzing with GPT-4o: '' @ title (replace_underscore pt) @ ''...'')] @ ?errs"
      using u2 u3 by (metis append.assoc display_fields(2))
    moreover have "list_all is_error ?errs"
      using e2 e3 by simp
    ultimately show "\<exists>errs. ui w3 = ui w @ [StWrite (''Analyzing with GPT-4o: '' @
                                          title (replace_underscore pt) @ ''...'')] @ errs
                       \<and> list_all is_error errs"
      by blast
    show "session w3 = session w"
      by (rule ses3)
    show "submissions w3 = submissions w"
      by (simp add: w3 w2 generate_follow_up_email_submissions gpt4o_json_prompt_submissions)
  }
  {
    fix w4 html subject m
    assume ok: "truthy r \<and> truthy fe"
      and h: "show_analysis e pt r fe w3 = (Inr (), w4) \<and> auto_email inp \<and> email inp \<noteq> [] \<and>
               bindE (subscript fe ''body'') (format_analysis_to_html e pt r) = Inr html \<and>
               email_subject e pt st = Inr subject \<and>
               smtp_submit e (submission_of e (email inp) subject html) = Some m"
    from h have "email_analysis e inp pt st r fe w4 =
                   (Inr (),
                    w4\<lparr>ui := ui w4 @ [StErrorExc ''Error sending email: '' (LibraryError m)],
                       submissions := submissions w4 @ [submission_of e (email inp) subject html]\<rparr>)"
      by (simp add: email_analysis_def send_email_def display_def Let_def)
    with sel st tc a b ok h
    show "handle_analysis e inp pt w =
                   (Inr (),
                    w4\<lparr>ui := ui w4 @ [StErrorExc ''Error sending email: '' (LibraryError m)],
                       submissions := submissions w4 @ [submission_of e (email inp) subject html]\<rparr>)"
      by (simp add: handle_analysis_def Let_def)
    from h have "session w4 = session w3"
      using show_analysis_session by blast
    with ses3 show "session w4 = session w"
      by simp
  }
qed

theorem partial_failure_policy_witness:
  "(\<exists>w'. handle_analysis half_prose_env example_inputs ''financial'' example_world = (Inr (), w')
       \<and> ui w' = [StWrite ''Analyzing with GPT-4o: Financial...'',
                  StErrorExc ''Error decoding JSON: ''
                    (JSONDecodeError ''Expecting value: line 1 column 1 (char 0)''),
                  StError (''Raw response: '' @ prose_reply),
                  StError generation_failed]
       \<and> session w' = session example_world \<and> submissions w' = [])
   \<and> (\<exists>w'. handle_analysis refused_env example_inputs ''financial'' example_world = (Inr (), w')
       \<and> ui w' = [StWrite ''Analyzing with GPT-4o: Financial...''] @
                 analysis_page ''financial'' example_result ''<p>Thanks</p>'' @
                 [StErrorExc ''Error sending email: '' (LibraryError ''Authentication failed'')]
       \<and> session w' = session example_world)"
proof (intro conjI)
  let ?tc = "''Alice: Budget is $10k''"
  let ?w1 = "display (StWrite (''Analyzing with GPT-4o: '' @ title (replace_underscore ''financial'') @ ''...''))
               example_world"
  let ?fe = "email_json ''Meeting Follow-up: Kickoff'' ''<p>Thanks</p>''"
  have u0: "ui example_world = []" "submissions example_world = []"
    by (simp_all add: example_world_def)
  show "\<exists>w'. handle_analysis half_prose_env example_inputs ''financial'' example_world = (Inr (), w')
       \<and> ui w' = [StWrite ''Analyzing with GPT-4o: Financial...'',
                  StErrorExc ''Error decoding JSON: ''
                    (JSONDecodeError ''Expecting value: line 1 column 1 (char 0)''),
                  StError (''Raw response: '' @ prose_reply),
                  StError generation_failed]
       \<and> session w' = session example_world \<and> submissions w' = []"
  proof -
    let ?e = half_prose_env
    let ?w2 = "?w1\<lparr>ui := ui ?w1 @ [StErrorExc ''Error decoding JSON: ''
                                       (JSONDecodeError ''Expecting value: line 1 column 1 (char 0)''),
                                    StError (''Raw response: '' @ prose_reply)],
                    completions := completions ?w1 @ [analysis_request prompt_financial ?tc]\<rparr>"
    let ?w3 = "?w2\<lparr>completions := completions ?w2 @ [email_request ?tc]\<rparr>"
    have key: "OPENAI_API_KEY ?e \<noteq> []"
      by (simp add: half_prose_env_def example_env_def)
    have a: "gpt4o_json_prompt ?e ?tc ''financial'' ?w1 = (JNull, ?w2)"
      by (rule gpt4o_json_prompt_unparseable [OF key map_of_prompts_financial, where content = prose_reply])
         (simp_all add: half_prose_env_def example_env_def example_loads_replies analysis_request_def)
    have b: "generate_follow_up_email ?e ?tc ?w2 = (?fe, ?w3)"
      by (rule generate_follow_up_email_parsed [OF key, where content = example_email_reply])
         (simp_all add: half_prose_env_def example_env_def example_loads_replies email_request_def)
    from partial_failure_policy
           [OF example_selected kickoff_content [of ?e] a b, of example_inputs]
    have "handle_analysis ?e example_inputs ''financial'' example_world =
            (Inr (), display (StError generation_failed) ?w3)"
      and "session ?w3 = session example_world" and "submissions ?w3 = submissions example_world"
      by simp_all
    then show ?thesis
      using u0 by (simp add: title_financial)
  qed
  show "\<exists>w'. handle_analysis refused_env example_inputs ''financial'' example_world = (Inr (), w')
       \<and> ui w' = [StWrite ''Analyzing with GPT-4o: Financial...''] @
                 analysis_page ''financial'' example_result ''<p>Thanks</p>'' @
                 [StErrorExc ''Error sending email: '' (LibraryError ''Authentication failed'')]
       \<and> session w' = session example_world"
  proof -
    let ?e = refused_env
    let ?r = "analysis_json example_result"
    let ?w2 = "?w1\<lparr>completions := completions ?w1 @ [analysis_request prompt_financial ?tc]\<rparr>"
    let ?w3 = "?w2\<lparr>completions := completions ?w2 @ [email_request ?tc]\<rparr>"
    let ?w4 = "?w3\<lparr>ui := ui ?w3 @ analysis_page ''financial'' example_result ''<p>Thanks</p>''\<rparr>"
    let ?subject = "''Meeting Analysis: '' @ title (replace_underscore ''financial'') @ '' - '' @
                    t_title kickoff @ '' - '' @ ''2023-11-14'' @ '' - Speakers: '' @ str_join '', '' [''Alice'']"
    obtain html where html: "format_analysis_to_html ?e ''financial'' ?r (JStr ''<p>Thanks</p>'') = Inr html"
      using format_analysis_to_html_record by blast
    have key: "OPENAI_API_KEY ?e \<noteq> []"
      by (simp add: refused_env_def example_env_def)
    have a: "gpt4o_json_prompt ?e ?tc ''financial'' ?w1 = (?r, ?w2)"
      by (rule gpt4o_json_prompt_parsed [OF key map_of_prompts_financial, where content = example_reply])
         (simp_all add: refused_env_def example_env_def example_loads_replies analysis_request_def)
    have b: "generate_follow_up_email ?e ?tc ?w2 = (?fe, ?w3)"
      by (rule generate_follow_up_email_parsed [OF key, where content = example_email_reply])
         (simp_all add: refused_env_def example_env_def example_loads_replies email_request_def)
    have t: "truthy ?r \<and> truthy ?fe"
      by (simp add: analysis_json_def email_json_def)
    have s: "show_analysis ?e ''financial'' ?r ?fe ?w3 = (Inr (), ?w4)"
      by (rule show_analysis_record)
    have i: "auto_email example_inputs \<and> email example_inputs \<noteq> []"
      by (simp add: example_inputs_def)
    have h: "bindE (subscript ?fe ''body'') (format_analysis_to_html ?e ''financial'' ?r) = Inr html"
      using html by simp
    have j: "email_subject ?e ''financial'' (transcript_json kickoff) = Inr ?subject"
    proof (rule email_subject_record)
      show "set_iter ?e (map (\<lambda>u. JStr (speaker u)) (t_sentences kickoff)) = map JStr [''Alice'']"
        by (simp add: refused_env_def example_env_def kickoff_def)
      show "local_date ?e (t_date kickoff) = Inr ''2023-11-14''"
        using local_date_refused by (simp add: kickoff_def)
    qed
    have m: "smtp_submit ?e (submission_of ?e (email example_inputs) ?subject html) =
               Some ''Authentication failed''"
      by (simp add: refused_env_def)
    from partial_failure_policy
           [OF example_selected kickoff_content [of ?e] a b, of example_inputs] t s i h j m
    have "handle_analysis ?e example_inputs ''financial'' example_world =
            (Inr (),
             ?w4\<lparr>ui := ui ?w4 @ [StErrorExc ''Error sending email: '' (LibraryError ''Authentication failed'')],
                  submissions := submissions ?w4 @
                    [submission_of ?e (email example_inputs) ?subject html]\<rparr>)"
      and "session ?w4 = session example_world"
      by blast+
    then show ?thesis
      using u0 by (simp add: title_financial)
  qed
qed

section \<open>The selection after a refresh\<close>

lemma field_of_each_id:
  "field_of_each ''id'' (map transcript_json ts) = Inr (map (\<lambda>t. JStr (t_id t)) ts)"
  by (induction ts) simp_all

lemma field_of_each_title:
  "field_of_each ''title'' (map transcript_json ts) = Inr (map (\<lambda>t. JStr (t_title t)) ts)"
  by (induction ts) simp_all

lemma next_with_id_record:
  "s \<in> set (map t_id ts) \<Longrightarrow>
     \<exists>t\<in>set ts. t_id t = s \<and> next_with_id (map transcript_json ts) (JStr s) = Inr (transcript_json t)"
  by (induction ts) auto

lemma fetch_transcripts_envelope:
  assumes "requests_post e (transcripts_request api_key) = Response 200 (Inr (provider_body ts))"
  shows "fetch_transcripts e api_key w =
           (Inr (JArr (map transcript_json ts)), w\<lparr>posts := posts w @ [transcripts_request api_key]\<rparr>)"
  using assms by (simp add: fetch_transcripts_def Let_def provider_body_def)

lemma refresh_transcripts_replaces:
  assumes "requests_post e (transcripts_request (fireflies_api_key inp)) =
             Response 200 (Inr (provider_body ts))"
    and "fireflies_api_key inp \<noteq> []" and "refresh_button inp"
  shows "refresh_transcripts e inp w =
           w\<lparr>session := (session w)\<lparr>transcripts := JArr (map transcript_json ts)\<rparr>,
             ui := ui w @ [StSuccess ''Transcripts refreshed successfully.''],
             posts := posts w @ [transcripts_request (fireflies_api_key inp)]\<rparr>"
  using assms by (simp add: refresh_transcripts_def fetch_transcripts_envelope display_def)

lemma select_and_show:
  assumes list: "transcripts (session w) = JArr (map transcript_json ts)"
    and ne: "ts \<noteq> []"
    and ids: "\<forall>t\<in>set ts. t_id t \<noteq> []"
    and box: "st_selectbox e (map (\<lambda>t. JStr (t_id t)) ts) \<in> set (map (\<lambda>t. JStr (t_id t)) ts)"
  shows "\<exists>t\<in>set ts.
           st_selectbox e (map (\<lambda>t. JStr (t_id t)) ts) = JStr (t_id t)
         \<and> select_transcript e w =
             (Inr (), w\<lparr>session := (session w)\<lparr>selected_transcript_id := JStr (t_id t)\<rparr>\<rparr>)
         \<and> show_transcript e (w\<lparr>session := (session w)\<lparr>selected_transcript_id := JStr (t_id t)\<rparr>\<rparr>) =
             (Inr (),
              display (StTextArea ''Transcript'' (str_join ''\<newline>'' (map utterance_line (t_sentences t))))
                (w\<lparr>session := (session w)\<lparr>selected_transcript_id := JStr (t_id t)\<rparr>\<rparr>))"
proof -
  from box obtain t0 where t0: "t0 \<in> set ts" and c: "st_selectbox e (map (\<lambda>t. JStr (t_id t)) ts) = JStr (t_id t0)"
    by auto
  from t0 have "t_id t0 \<in> set (map t_id ts)"
    by simp
  from next_with_id_record [OF this] obtain t where
    t: "t \<in> set ts" and i: "t_id t = t_id t0" and
    n: "next_with_id (map transcript_json ts) (JStr (t_id t0)) = Inr (transcript_json t)"
    by blast
  from t ids have nonempty: "t_id t \<noteq> []"
    by blast
  let ?w1 = "w\<lparr>session := (session w)\<lparr>selected_transcript_id := JStr (t_id t)\<rparr>\<rparr>"
  have sel: "select_transcript e w = (Inr (), ?w1)"
    using list ne c i nonempty
    by (simp add: select_transcript_def field_of_each_id field_of_each_title Let_def)
  have "selected_transcript_of (session ?w1) = Inr (transcript_json t)"
    using list n i by (simp add: selected_transcript_of_def)
  then have shw: "show_transcript e ?w1 =
      (Inr (), display (StTextArea ''Transcript'' (str_join ''\<newline>'' (map utterance_line (t_sentences t)))) ?w1)"
    using nonempty by (simp add: show_transcript_def get_transcript_content_record)
  from t c i sel shw show ?thesis
    by (intro bexI [of _ t]) simp_all
qed

text \<open>
  C1, as amended. In every run in which, after the refresh step, the transcript list is
  a non-empty list of well-formed transcripts whose identifiers are not empty, and the
  selector returns one of its options, the selection step sets the selected identifier
  to the selector's choice, which is the identifier of a transcript of that list,
  whatever was selected before; and the transcript display then shows the text of that
  transcript and does not raise. This is so in particular after a refresh that replaces
  the list: a selection that is absent from the new list is replaced, not emptied.
\<close>

theorem refreshed_selection_follows_selector:
  assumes list: "transcripts (session (refresh_transcripts e inp w)) = JArr (map transcript_json ts)"
    and ne: "ts \<noteq> []"
    and ids: "\<forall>t\<in>set ts. t_id t \<noteq> []"
    and box: "st_selectbox e (map (\<lambda>t. JStr (t_id t)) ts) \<in> set (map (\<lambda>t. JStr (t_id t)) ts)"
  shows "(\<exists>t w1. t \<in> set ts
         \<and> st_selectbox e (map (\<lambda>t. JStr (t_id t)) ts) = JStr (t_id t)
         \<and> select_transcript e (refresh_transcripts e inp w) = (Inr (), w1)
         \<and> transcripts (session w1) = JArr (map transcript_json ts)
         \<and> selected_transcript_id (session w1) = JStr (t_id t)
         \<and> show_transcript e w1 =
             (Inr (),
              display (StTextArea ''Transcript'' (str_join ''\<newline>'' (map utterance_line (t_sentences t))))
                w1))
     \<and> (\<forall>w' new. requests_post e (transcripts_request (fireflies_api_key inp)) =
                     Response 200 (Inr (provider_body new))
                 \<and> fireflies_api_key inp \<noteq> [] \<and> refresh_button inp \<longrightarrow>
           transcripts (session (refresh_transcripts e inp w')) = JArr (map transcript_json new))"
proof (intro conjI allI impI)
  let ?w = "refresh_transcripts e inp w"
  from select_and_show [OF list ne ids box] obtain t where
    "t \<in> set ts" and
    "st_selectbox e (map (\<lambda>t. JStr (t_id t)) ts) = JStr (t_id t)" and
    "select_transcript e ?w =
       (Inr (), ?w\<lparr>session := (session ?w)\<lparr>selected_transcript_id := JStr (t_id t)\<rparr>\<rparr>)" and
    "show_transcript e (?w\<lparr>session := (session ?w)\<lparr>selected_transcript_id := JStr (t_id t)\<rparr>\<rparr>) =
       (Inr (),
        display (StTextArea ''Transcript'' (str_join ''\<newline>'' (map utterance_line (t_sentences t))))
          (?w\<lparr>session := (session ?w)\<lparr>selected_transcript_id := JStr (t_id t)\<rparr>\<rparr>))"
    by blast
  with list show "\<exists>t w1. t \<in> set ts
         \<and> st_selectbox e (map (\<lambda>t. JStr (t_id t)) ts) = JStr (t_id t)
         \<and> select_transcript e (refresh_transcripts e inp w) = (Inr (), w1)
         \<and> transcripts (session w1) = JArr (map transcript_json ts)
         \<and> selected_transcript_id (session w1) = JStr (t_id t)
         \<and> show_transcript e w1 =
             (Inr (),
              display (StTextArea ''Transcript'' (str_join ''\<newline>'' (map utterance_line (t_sentences t))))
                w1)"
    by (intro exI [of _ t] exI [of _ "?w\<lparr>session := (session ?w)\<lparr>selected_transcript_id := JStr (t_id t)\<rparr>\<rparr>"])
       simp
next
  fix w' new
  assume "requests_post e (transcripts_request (fireflies_api_key inp)) =
                     Response 200 (Inr (provider_body new))
                 \<and> fireflies_api_key inp \<noteq> [] \<and> refresh_button inp"
  then show "transcripts (session (refresh_transcripts e inp w')) = JArr (map transcript_json new)"
    by (simp add: refresh_transcripts_replaces)
qed

theorem refreshed_selection_follows_selector_witness:
  "\<exists>w1. select_transcript replaced_env (refresh_transcripts replaced_env refresh_inputs example_world) =
           (Inr (), w1)
       \<and> transcripts (session w1) = JArr [transcript_json review]
       \<and> selected_transcript_id (session w1) = JStr ''b''
       \<and> show_transcript replaced_env w1 =
           (Inr (), display (StTextArea ''Transcript'' ''Alice: Hello\<newline>Bob: Hi\<newline>Alice: Bye'') w1)"
proof -
  have resp: "requests_post replaced_env (transcripts_request (fireflies_api_key refresh_inputs)) =
                Response 200 (Inr (provider_body [review]))"
    by (simp add: replaced_env_def)
  have asked: "fireflies_api_key refresh_inputs \<noteq> []" "refresh_button refresh_inputs"
    by (simp_all add: refresh_inputs_def example_inputs_def)
  have list: "transcripts (session (refresh_transcripts replaced_env refresh_inputs example_world)) =
                JArr (map transcript_json [review])"
    using resp asked by (simp add: refresh_transcripts_replaces)
  have ne: "[review] \<noteq> []"
    by simp
  have ids: "\<forall>t\<in>set [review]. t_id t \<noteq> []"
    by (simp add: review_def)
  have box: "st_selectbox replaced_env (map (\<lambda>t. JStr (t_id t)) [review]) \<in>
               set (map (\<lambda>t. JStr (t_id t)) [review])"
    by (simp add: replaced_env_def example_env_def)
  have lines: "str_join ''\<newline>'' (map utterance_line (t_sentences review)) =
                 ''Alice: Hello\<newline>Bob: Hi\<newline>Alice: Bye''"
    by (simp add: review_def utterance_line_def)
  from refreshed_selection_follows_selector [OF list ne ids box, THEN conjunct1]
  obtain t w1 where "t \<in> set [review]"
    and "select_transcript replaced_env (refresh_transcripts replaced_env refresh_inputs example_world) =
           (Inr (), w1)"
    and "transcripts (session w1) = JArr (map transcript_json [review])"
    and "selected_transcript_id (session w1) = JStr (t_id t)"
    and "show_transcript replaced_env w1 =
           (Inr (), display (StTextArea ''Transcript''
                               (str_join ''\<newline>'' (map utterance_line (t_sentences t)))) w1)"
    by blast
  then show ?thesis
    using lines by (intro exI [of _ w1]) (simp add: review_def)
qed

lemma script_replaced:
  "script replaced_env refresh_inputs (Some example_session) =
     (Inr (),
      \<lparr>session = \<lparr>transcripts = JArr [transcript_json review], selected_transcript_id = JStr ''b''\<rparr>,
       ui = [StTitle ''Fireflies Meeting Prototype'',
             StSuccess ''Transcripts refreshed successfully.'',
             StTextArea ''Transcript'' ''Alice: Hello\<newline>Bob: Hi\<newline>Alice: Bye'',
             StMarkdown (JStr ''---''),
             StMarkdown (JStr ''Powered by Fireflies.ai and OpenAI GPT-4o'')],
       posts = [transcripts_request ''ff-key''], completions = [], submissions = []\<rparr>)"
proof -
  have c: "str_join ''\<newline>'' (map utterance_line (t_sentences review)) =
             ''Alice: Hello\<newline>Bob: Hi\<newline>Alice: Bye''"
    by (simp add: review_def utterance_line_def)
  have i: "t_id review = ''b''" "t_title review = ''Review''"
    by (simp_all add: review_def)
  show ?thesis
    by (simp add: script_def Let_def init_session_state_def example_session_def replaced_env_def
        example_env_def refresh_inputs_def example_inputs_def refresh_transcripts_def
        fetch_transcripts_def provider_body_def select_transcript_def show_transcript_def
        selected_transcript_of_def display_def prompts_def get_transcript_content_record c i)
qed

text \<open>
  When the refresh brings an empty list, line 308 skips the selector, the old selection
  stays, and \<^verbatim>\<open>next\<close> at line 322 raises \<^verbatim>\<open>StopIteration\<close>.
\<close>

lemma stale_selection_with_empty_list_raises:
  "script emptied_env refresh_inputs (Some example_session) =
     (Inl StopIteration,
      \<lparr>session = \<lparr>transcripts = JArr [], selected_transcript_id = JStr ''a''\<rparr>,
       ui = [StTitle ''Fireflies Meeting Prototype'',
             StSuccess ''Transcripts refreshed successfully.''],
       posts = [transcripts_request ''ff-key''], completions = [], submissions = []\<rparr>)"
  by (simp add: script_def Let_def init_session_state_def example_session_def emptied_env_def
      example_env_def refresh_inputs_def example_inputs_def refresh_transcripts_def
      fetch_transcripts_def provider_body_def select_transcript_def show_transcript_def
      selected_transcript_of_def display_def)

text \<open>
  Against C1 as it was stated: the session holds the transcript "Kickoff" and the
  selection \<^verbatim>\<open>a\<close>. When a refresh brings the list that holds "Review", with identifier
  \<^verbatim>\<open>b\<close>, only, the run ends without an exception, but the selection is not treated as
  empty: it is \<^verbatim>\<open>b\<close>, and the display shows the text of "Review". When a refresh
  brings the empty list, the selection is still \<^verbatim>\<open>a\<close>, which the list does not
  hold, and the run ends with \<^verbatim>\<open>StopIteration\<close> at the transcript display.
\<close>

theorem stale_selection_is_replaced:
  "selected_transcript_id example_session = JStr ''a''
   \<and> fst (script replaced_env refresh_inputs (Some example_session)) = Inr ()
   \<and> session (snd (script replaced_env refresh_inputs (Some example_session))) =
       \<lparr>transcripts = JArr [transcript_json review], selected_transcript_id = JStr ''b''\<rparr>
   \<and> truthy (selected_transcript_id (session (snd (script replaced_env refresh_inputs (Some example_session)))))
   \<and> StTextArea ''Transcript'' ''Alice: Hello\<newline>Bob: Hi\<newline>Alice: Bye''
       \<in> set (ui (snd (script replaced_env refresh_inputs (Some example_session))))
   \<and> fst (script emptied_env refresh_inputs (Some example_session)) = Inl StopIteration
   \<and> session (snd (script emptied_env refresh_inputs (Some example_session))) =
       \<lparr>transcripts = JArr [], selected_transcript_id = JStr ''a''\<rparr>"
  by (simp add: script_replaced stale_selection_with_empty_list_raises) (simp add: example_session_def)

section \<open>Replies that are JSON of another shape\<close>






end
